theory Spec2Isabelle
  imports Complex_Main
begin

section \<open>Python strings\<close>

text \<open>
  Source: \<^verbatim>\<open>gcodetohpgl.py\<close>. A Python \<open>str\<close> is modelled as a \<open>string\<close>, one
  \<open>char\<close> per code point below 256; G-code and HPGL text is ASCII.
\<close>

abbreviation nl :: char where "nl \<equiv> CHR 0x0A"

abbreviation dquote :: char where "dquote \<equiv> CHR 0x22"

text \<open>\<^verbatim>\<open>str.isspace\<close> on one code point; the regular expression classes \<^verbatim>\<open>\s\<close> and
  \<^verbatim>\<open>\S\<close> of a \<open>str\<close> pattern use the same table.\<close>

definition isspace :: "char \<Rightarrow> bool" where
  "isspace c = (let n = (of_char c :: nat) in
     (9 \<le> n \<and> n \<le> 13) \<or> (28 \<le> n \<and> n \<le> 32) \<or> n = 133 \<or> n = 160)"

definition isdigit :: "char \<Rightarrow> bool" where
  "isdigit c = (let n = (of_char c :: nat) in 48 \<le> n \<and> n \<le> 57)"

definition digit_val :: "char \<Rightarrow> nat" where
  "digit_val c = (of_char c :: nat) - 48"

text \<open>\<^verbatim>\<open>s.strip()\<close>\<close>

definition strip :: "string \<Rightarrow> string" where
  "strip s = rev (dropWhile isspace (rev (dropWhile isspace s)))"

text \<open>\<^verbatim>\<open>s.startswith(p)\<close>\<close>

definition startswith :: "string \<Rightarrow> string \<Rightarrow> bool" where
  "startswith s p = (take (length p) s = p)"

text \<open>\<^verbatim>\<open>sub in s\<close>\<close>

fun contains :: "string \<Rightarrow> string \<Rightarrow> bool" where
  "contains sub [] = (sub = [])"
| "contains sub (c # cs) = (startswith (c # cs) sub \<or> contains sub cs)"

text \<open>\<^verbatim>\<open>s.split(sep)\<close> for a separator of one character: never empty, and
  \<open>n\<close> separators give \<open>n + 1\<close> pieces.\<close>

fun split_on :: "char \<Rightarrow> string \<Rightarrow> string list" where
  "split_on sep [] = [[]]"
| "split_on sep (c # cs) =
     (if c = sep then [] # split_on sep cs
      else (case split_on sep cs of
              [] \<Rightarrow> [[c]]
            | p # ps \<Rightarrow> (c # p) # ps))"

text \<open>\<^verbatim>\<open>'%d' % n\<close> for an \<open>int\<close>\<close>

definition digit_char :: "nat \<Rightarrow> char" where
  "digit_char d = ''0123456789'' ! d"

fun show_nat :: "nat \<Rightarrow> string" where
  "show_nat n = (if n < 10 then [digit_char n]
                 else show_nat (n div 10) @ [digit_char (n mod 10)])"

declare show_nat.simps [simp del]

definition show_int :: "int \<Rightarrow> string" where
  "show_int i = (if i < 0 then CHR ''-'' # show_nat (nat (- i)) else show_nat (nat i))"


section \<open>Python floats\<close>

text \<open>
  A Python \<open>float\<close> is an IEEE 754 binary64 number. \<open>Fin s m e\<close> is the finite
  number \<open>(-1)\<^sup>s \<times> m \<times> 2\<^sup>e\<close> (so both zeros exist), \<open>Infty s\<close> an infinity and
  \<open>NaN\<close> not-a-number. Every operation computes the exact result and rounds it to
  the nearest double, ties to even, as the hardware does.
\<close>

datatype pyfloat = Fin bool nat int | Infty bool | NaN

fun bitlen_nat :: "nat \<Rightarrow> nat" where
  "bitlen_nat n = (if n = 0 then 0 else Suc (bitlen_nat (n div 2)))"

declare bitlen_nat.simps [simp del]

text \<open>The integer nearest to \<open>a / b\<close>, ties to the even one.\<close>

definition round_half_even :: "nat \<Rightarrow> nat \<Rightarrow> nat" where
  "round_half_even a b =
     (let q = a div b; r = a mod b in
      if 2 * r < b then q
      else if b < 2 * r then q + 1
      else if even q then q else q + 1)"

text \<open>\<open>a / b \<times> 2\<^sup>-\<^sup>k\<close>, rounded down and rounded to nearest.\<close>

definition scaled_floor :: "nat \<Rightarrow> nat \<Rightarrow> int \<Rightarrow> nat" where
  "scaled_floor a b k =
     (if k \<le> 0 then (a * 2 ^ nat (- k)) div b else a div (b * 2 ^ nat k))"

definition scaled_round :: "nat \<Rightarrow> nat \<Rightarrow> int \<Rightarrow> nat" where
  "scaled_round a b k =
     (if k \<le> 0 then round_half_even (a * 2 ^ nat (- k)) b
      else round_half_even a (b * 2 ^ nat k))"

text \<open>
  \<open>fround s a b e\<close> is the double nearest to \<open>(-1)\<^sup>s \<times> a / b \<times> 2\<^sup>e\<close> (\<open>b > 0\<close>):
  53 significant bits, exponent of the last bit at least \<open>-1074\<close> (subnormal
  numbers below that), and an infinity from \<open>2\<^sup>1\<^sup>0\<^sup>2\<^sup>4\<close> on.
\<close>

definition fround :: "bool \<Rightarrow> nat \<Rightarrow> nat \<Rightarrow> int \<Rightarrow> pyfloat" where
  "fround s a b e =
     (if a = 0 then Fin s 0 0
      else
        let E0 = int (bitlen_nat a) - int (bitlen_nat b) + e - 53;
            E1 = (if 2 ^ 53 \<le> scaled_floor a b (E0 - e) then E0 + 1 else E0);
            E = max E1 (- 1074);
            m = scaled_round a b (E - e)
        in if m = 0 then Fin s 0 0
           else if 971 < E \<or> (E = 971 \<and> 2 ^ 53 \<le> m) then Infty s
           else Fin s m E)"

text \<open>A decimal literal \<open>n \<times> 10\<^sup>k\<close>.\<close>

definition of_decimal :: "bool \<Rightarrow> nat \<Rightarrow> int \<Rightarrow> pyfloat" where
  "of_decimal s n k =
     (if 0 \<le> k then fround s (n * 10 ^ nat k) 1 0 else fround s n (10 ^ nat (- k)) 0)"

text \<open>The float of an \<open>int\<close>, as in \<^verbatim>\<open>20 * x\<close>, where \<open>20\<close> becomes \<open>20.0\<close>.\<close>

definition of_int_float :: "int \<Rightarrow> pyfloat" where
  "of_int_float i = fround (i < 0) (nat \<bar>i\<bar>) 1 0"

text \<open>\<^verbatim>\<open>a * b\<close>\<close>

fun fmul :: "pyfloat \<Rightarrow> pyfloat \<Rightarrow> pyfloat" where
  "fmul NaN _ = NaN"
| "fmul _ NaN = NaN"
| "fmul (Infty s) (Infty t) = Infty (s \<noteq> t)"
| "fmul (Infty s) (Fin t m e) = (if m = 0 then NaN else Infty (s \<noteq> t))"
| "fmul (Fin s m e) (Infty t) = (if m = 0 then NaN else Infty (s \<noteq> t))"
| "fmul (Fin s m e) (Fin t n f) = fround (s \<noteq> t) (m * n) 1 (e + f)"

text \<open>\<^verbatim>\<open>a + b\<close>: an exact zero sum is \<open>+0\<close> unless both operands are \<open>-0\<close>.\<close>

fun fadd :: "pyfloat \<Rightarrow> pyfloat \<Rightarrow> pyfloat" where
  "fadd NaN _ = NaN"
| "fadd _ NaN = NaN"
| "fadd (Infty s) (Infty t) = (if s = t then Infty s else NaN)"
| "fadd (Infty s) (Fin t m e) = Infty s"
| "fadd (Fin s m e) (Infty t) = Infty t"
| "fadd (Fin s m e) (Fin t n f) =
     (let g = min e f;
          v = (if s then - 1 else 1) * int m * 2 ^ nat (e - g)
            + (if t then - 1 else 1) * int n * 2 ^ nat (f - g)
      in if v = 0 then Fin (s \<and> t) 0 0
         else fround (v < 0) (nat \<bar>v\<bar>) 1 g)"

text \<open>\<^verbatim>\<open>f <= 0.0\<close> and \<^verbatim>\<open>f > 0.0\<close>; both are false for \<open>NaN\<close>.\<close>

fun fle0 :: "pyfloat \<Rightarrow> bool" where
  "fle0 (Fin s m e) = (m = 0 \<or> s)"
| "fle0 (Infty s) = s"
| "fle0 NaN = False"

fun fgt0 :: "pyfloat \<Rightarrow> bool" where
  "fgt0 (Fin s m e) = (m \<noteq> 0 \<and> \<not> s)"
| "fgt0 (Infty s) = (\<not> s)"
| "fgt0 NaN = False"

text \<open>The real number a finite double stands for.\<close>

fun valof :: "pyfloat \<Rightarrow> real" where
  "valof (Fin s m e) =
     (if s then - 1 else 1) *
     (if 0 \<le> e then real m * 2 ^ nat e else real m / 2 ^ nat (- e))"
| "valof _ = 0"


section \<open>Exceptions\<close>

text \<open>
  Every exception the translator and the replay loop can end with.
  \<open>AttributeError t a\<close> is \<^verbatim>\<open>'t' object has no attribute 'a'\<close>; \<open>ValueError_float s\<close>
  is \<^verbatim>\<open>could not convert string to float\<close> for the text \<open>s\<close>; \<open>SystemExit n\<close> is
  \<^verbatim>\<open>sys.exit(n)\<close>.
\<close>

datatype error =
    Exception string
  | SystemExit int
  | AttributeError string string
  | ValueError_float string
  | ValueError_int_nan
  | OverflowError_int_inf
  | UnboundLocalError string
  | IndexError
  | UnicodeEncodeError
  | UnicodeDecodeError

text \<open>\<^verbatim>\<open>int(f)\<close>: the integer part, toward zero.\<close>

fun py_int :: "pyfloat \<Rightarrow> error + int" where
  "py_int (Fin s m e) =
     Inr ((if s then - 1 else 1) *
          (if 0 \<le> e then int m * 2 ^ nat e else int (m div 2 ^ nat (- e))))"
| "py_int (Infty s) = Inl OverflowError_int_inf"
| "py_int NaN = Inl ValueError_int_nan"

text \<open>\<^verbatim>\<open>'%.0f' % f\<close>: the nearest integer, ties to even, with the sign of \<open>f\<close>.\<close>

fun format_0f :: "pyfloat \<Rightarrow> string" where
  "format_0f (Fin s m e) =
     (if s then ''-'' else '''') @
     show_nat (if 0 \<le> e then m * 2 ^ nat e else round_half_even m (2 ^ nat (- e)))"
| "format_0f (Infty s) = (if s then ''-inf'' else ''inf'')"
| "format_0f NaN = ''nan''"


section \<open>\<^verbatim>\<open>float(s)\<close>\<close>

text \<open>
  The grammar of the language reference: surrounding white space is dropped (for
  \<open>float\<close> the separators \<open>0x1C\<close> to \<open>0x1F\<close> are not white space), then
  \<^verbatim>\<open>[sign] (floatnumber | "inf" | "infinity" | "nan")\<close>, letters in either case, with
  \<^verbatim>\<open>digitpart ::= digit (["_"] digit)*\<close>,
  \<^verbatim>\<open>number ::= [digitpart] "." digitpart | digitpart ["."]\<close> and
  \<^verbatim>\<open>floatnumber ::= number [("e" | "E") [sign] digitpart]\<close>. The decimal value is rounded
  to the nearest double.
\<close>

text \<open>The rest of a \<open>digitpart\<close> after its first digit: the value read so far, the
  number of digits, and what follows.\<close>

fun digits_acc :: "nat \<Rightarrow> nat \<Rightarrow> string \<Rightarrow> nat \<times> nat \<times> string" where
  "digits_acc v n [] = (v, n, [])"
| "digits_acc v n [c] =
     (if isdigit c then (10 * v + digit_val c, Suc n, []) else (v, n, [c]))"
| "digits_acc v n (c # d # ds) =
     (if isdigit c then digits_acc (10 * v + digit_val c) (Suc n) (d # ds)
      else if c = CHR ''_'' \<and> isdigit d then digits_acc (10 * v + digit_val d) (Suc n) ds
      else (v, n, c # d # ds))"

definition digitpart :: "nat \<Rightarrow> string \<Rightarrow> (nat \<times> nat \<times> string) option" where
  "digitpart v s =
     (case s of
        [] \<Rightarrow> None
      | c # cs \<Rightarrow> if isdigit c then Some (digits_acc (10 * v + digit_val c) 1 cs) else None)"

text \<open>\<open>number\<close>: all digits read as one natural number, the number of digits after the
  point, and what follows.\<close>

definition number :: "string \<Rightarrow> (nat \<times> nat \<times> string) option" where
  "number s =
     (case digitpart 0 s of
        Some (v, n, r) \<Rightarrow>
          (case r of
             [] \<Rightarrow> Some (v, 0, [])
           | c # r' \<Rightarrow>
               if c = CHR ''.'' then
                 (case digitpart v r' of
                    Some (v', n', r'') \<Rightarrow> Some (v', n', r'')
                  | None \<Rightarrow> Some (v, 0, r'))
               else Some (v, 0, r))
      | None \<Rightarrow>
          (case s of
             [] \<Rightarrow> None
           | c # r' \<Rightarrow> if c = CHR ''.'' then digitpart 0 r' else None))"

definition take_sign :: "string \<Rightarrow> bool \<times> string" where
  "take_sign s =
     (case s of
        [] \<Rightarrow> (False, [])
      | c # cs \<Rightarrow>
          if c = CHR ''-'' then (True, cs)
          else if c = CHR ''+'' then (False, cs)
          else (False, s))"

text \<open>\<open>floatnumber\<close> up to the end of the text: the digits \<open>v\<close> and the power of ten
  \<open>k\<close> of the value \<open>v \<times> 10\<^sup>k\<close>.\<close>

definition floatnumber :: "string \<Rightarrow> (nat \<times> int) option" where
  "floatnumber s =
     (case number s of
        None \<Rightarrow> None
      | Some (v, n, r) \<Rightarrow>
          (case r of
             [] \<Rightarrow> Some (v, - int n)
           | c # r' \<Rightarrow>
               if c = CHR ''e'' \<or> c = CHR ''E'' then
                 (case take_sign r' of
                    (neg, r'') \<Rightarrow>
                      (case digitpart 0 r'' of
                         Some (x, _, []) \<Rightarrow>
                           Some (v, (if neg then - int x else int x) - int n)
                       | _ \<Rightarrow> None))
               else None))"

definition lower :: "char \<Rightarrow> char" where
  "lower c =
     (case map_of (zip ''ABCDEFGHIJKLMNOPQRSTUVWXYZ'' ''abcdefghijklmnopqrstuvwxyz'') c of
        Some d \<Rightarrow> d
      | None \<Rightarrow> c)"

definition float_space :: "char \<Rightarrow> bool" where
  "float_space c = (let n = (of_char c :: nat) in
     (9 \<le> n \<and> n \<le> 13) \<or> n = 32 \<or> n = 133 \<or> n = 160)"

definition float_strip :: "string \<Rightarrow> string" where
  "float_strip s = rev (dropWhile float_space (rev (dropWhile float_space s)))"

definition float_py :: "string \<Rightarrow> error + pyfloat" where
  "float_py s =
     (case take_sign (float_strip s) of
        (neg, t) \<Rightarrow>
          if map lower t = ''inf'' \<or> map lower t = ''infinity'' then Inr (Infty neg)
          else if map lower t = ''nan'' then Inr NaN
          else (case floatnumber t of
                  Some (v, k) \<Rightarrow> Inr (of_decimal neg v k)
                | None \<Rightarrow> Inl (ValueError_float s)))"


section \<open>Machine configuration\<close>

text \<open>The module's globals. \<open>mode\<close> only ever holds \<^verbatim>\<open>'abs'\<close> or \<^verbatim>\<open>'rel'\<close>.\<close>

datatype mode = Abs | Rel

definition calfactor :: pyfloat where
  "calfactor = of_decimal False 13333 (- 2)"

definition xmax :: int where "xmax = 42000"

definition ymax :: int where "ymax = 24000"

definition xoff :: pyfloat where "xoff = of_decimal False 1 (- 1)"

definition yoff :: pyfloat where "yoff = of_decimal False 1 (- 1)"

definition mill_feed :: int where "mill_feed = 12000"

definition spindle_speed :: int where "spindle_speed = 32"

text \<open>
  What the translator mutates: the global \<open>mode\<close>, the attributes
  \<^verbatim>\<open>parse_move.x\<close> and \<^verbatim>\<open>parse_move.y\<close> (created as 0 by the first call), and the
  global \<open>drill_dwell\<close>.
\<close>

record state =
  mode :: mode
  parse_move_x :: int
  parse_move_y :: int
  drill_dwell :: pyfloat

definition initial_state :: state where
  "initial_state =
     \<lparr>mode = Abs, parse_move_x = 0, parse_move_y = 0,
      drill_dwell = of_decimal False 7 (- 1)\<rparr>"


section \<open>Regular expressions\<close>

text \<open>
  \<^verbatim>\<open>re.match(r"G0[01] X(\S*) Y(\S*).*", gcode)\<close>: the two groups, or \<open>None\<close>. A group
  \<^verbatim>\<open>\S*\<close> is the longest run of characters that are not white space; the literal
  space after it leaves no other choice.
\<close>

definition nonspace :: "char \<Rightarrow> bool" where
  "nonspace c = (\<not> isspace c)"

definition re_match_xy :: "string \<Rightarrow> (string \<times> string) option" where
  "re_match_xy gcode =
     (if startswith gcode ''G00 X'' \<or> startswith gcode ''G01 X'' then
        (let r = drop 5 gcode; r' = dropWhile nonspace r in
         if startswith r' '' Y''
         then Some (takeWhile nonspace r, takeWhile nonspace (drop 2 r'))
         else None)
      else None)"

text \<open>\<^verbatim>\<open>re.match(r"G0[01] Z(\S*).*", gcode)\<close>\<close>

definition re_match_z :: "string \<Rightarrow> string option" where
  "re_match_z gcode =
     (if startswith gcode ''G00 Z'' \<or> startswith gcode ''G01 Z''
      then Some (takeWhile nonspace (drop 5 gcode))
      else None)"

text \<open>
  \<^verbatim>\<open>re.match(r"M06 T([0-9]*) \((.*)\).*", gcode)\<close>: \<^verbatim>\<open>.\<close> is any character but a
  newline, and the greedy \<^verbatim>\<open>(.*)\<close> runs to the last closing bracket before one.
\<close>

definition re_match_tool :: "string \<Rightarrow> (string \<times> string) option" where
  "re_match_tool gcode =
     (if startswith gcode ''M06 T'' then
        (let r = drop 5 gcode; r' = dropWhile isdigit r;
             body = takeWhile (\<lambda>c. c \<noteq> nl) (drop 2 r') in
         if startswith r' '' ('' \<and> CHR '')'' \<in> set body
         then Some (takeWhile isdigit r,
                    rev (tl (dropWhile (\<lambda>c. c \<noteq> CHR '')'') (rev body))))
         else None)
      else None)"

section \<open>Parse functions\<close>

text \<open>An exception ends the computation: \<open>then_do r f\<close> goes on with \<open>f\<close> only when
  \<open>r\<close> is a value.\<close>

definition then_do :: "error + 'a \<Rightarrow> ('a \<Rightarrow> error + 'b) \<Rightarrow> error + 'b" where
  "then_do r f = (case r of Inl e \<Rightarrow> Inl e | Inr v \<Rightarrow> f v)"

text \<open>\<^verbatim>\<open>xycmd.group(n)\<close> and its like on a failed match, which is \<open>None\<close>.\<close>

definition no_match :: error where
  "no_match = AttributeError ''NoneType'' ''group''"

definition change_units :: "string \<Rightarrow> error + unit" where
  "change_units new =
     (if new = ''in'' then Inl (Exception ''inch unit is unsupported'') else Inr ())"

definition sync_marker :: string where
  \<open>sync_marker = ''OS;'' @ [nl] @ ''CO "wait for position response"'' @ [nl]\<close>

definition change_mode :: "mode \<Rightarrow> state \<Rightarrow> string \<times> state" where
  "change_mode new st =
     (if mode st = new then ('''', st)
      else ((if mode st = Rel then sync_marker else ''''), st\<lparr>mode := new\<rparr>))"

text \<open>\<^verbatim>\<open>int(calfactor * (off + float(text)))\<close> and \<^verbatim>\<open>int(calfactor * float(text))\<close>\<close>

definition abs_coord :: "pyfloat \<Rightarrow> string \<Rightarrow> error + int" where
  "abs_coord off text =
     then_do (float_py text) (\<lambda>f. py_int (fmul calfactor (fadd off f)))"

definition rel_coord :: "string \<Rightarrow> error + int" where
  "rel_coord text = then_do (float_py text) (\<lambda>f. py_int (fmul calfactor f))"

text \<open>
  \<open>parse_move\<close>: the match is used unchecked, both coordinates are computed before the
  first bound check, \<^verbatim>\<open>sys.exit(12)\<close> follows a coordinate above its limit, and the last
  two statements add \<open>newx\<close> and \<open>newy\<close> to \<^verbatim>\<open>parse_move.x\<close> and \<^verbatim>\<open>parse_move.y\<close> in
  either mode.
\<close>

definition parse_move :: "string \<Rightarrow> state \<Rightarrow> error + string \<times> state" where
  "parse_move gcode st =
     (case mode st of
        Abs \<Rightarrow>
          (case re_match_xy gcode of
             None \<Rightarrow> Inl no_match
           | Some (g1, g2) \<Rightarrow>
               then_do (abs_coord xoff g1) (\<lambda>newx.
               then_do (abs_coord yoff g2) (\<lambda>newy.
                 if newx > xmax then Inl (SystemExit 12)
                 else if newy > ymax then Inl (SystemExit 12)
                 else Inr (''PA'' @ show_int newx @ '','' @ show_int newy @ '';'',
                           st\<lparr>parse_move_x := parse_move_x st + newx,
                              parse_move_y := parse_move_y st + newy\<rparr>))))
      | Rel \<Rightarrow>
          (case re_match_xy gcode of
             None \<Rightarrow> Inl no_match
           | Some (g1, g2) \<Rightarrow>
               then_do (rel_coord g1) (\<lambda>newx.
               then_do (rel_coord g2) (\<lambda>newy.
                 if parse_move_x st + newx > xmax then Inl (SystemExit 12)
                 else if parse_move_y st + newy > ymax then Inl (SystemExit 12)
                 else Inr (''PR'' @ show_int (parse_move_x st + newx) @ '','' @
                           show_int (parse_move_y st + newy) @ '';'',
                           st\<lparr>parse_move_x := parse_move_x st + newx,
                              parse_move_y := parse_move_y st + newy\<rparr>)))))"

text \<open>\<^verbatim>\<open>'!TW%.0f;' % t\<close>\<close>

definition timed_wait :: "pyfloat \<Rightarrow> string" where
  "timed_wait t = ''!TW'' @ format_0f t @ '';''"

text \<open>\<^verbatim>\<open>line[line.find('P') + 1:]\<close>: the whole line when there is no \<open>P\<close>, since
  \<open>find\<close> is then \<open>-1\<close>.\<close>

definition after_P :: "string \<Rightarrow> string" where
  "after_P line =
     (if CHR ''P'' \<in> set line then tl (dropWhile (\<lambda>c. c \<noteq> CHR ''P'') line) else line)"

definition parse_dwell :: "string \<Rightarrow> error + string" where
  "parse_dwell line =
     then_do (float_py (after_P line)) (\<lambda>f. Inr (timed_wait (fmul f (of_int_float 1000))))"

text \<open>
  \<^verbatim>\<open>parse_dwell('G04 P%s' % drill_dwell)\<close>: \<^verbatim>\<open>%s\<close> writes the \<open>repr\<close> of the float, which
  holds no \<open>P\<close> and which \<open>float\<close> reads back as the same float, so that
  \<open>t\<close> is \<^verbatim>\<open>drill_dwell * 1000\<close>.
\<close>

definition parse_dwell_of :: "pyfloat \<Rightarrow> string" where
  "parse_dwell_of d = timed_wait (fmul d (of_int_float 1000))"

text \<open>\<open>parse_z\<close>: \<open>hpgl\<close> is assigned by neither \<open>if\<close> when \<open>newz\<close> is \<open>NaN\<close>.\<close>

definition parse_z :: "string \<Rightarrow> bool \<Rightarrow> state \<Rightarrow> error + string" where
  "parse_z gcode drill st =
     (case re_match_z gcode of
        None \<Rightarrow> Inl no_match
      | Some g \<Rightarrow>
          then_do (float_py g) (\<lambda>newz.
            let h1 = (if fle0 newz
                      then Some (''PD;'' @ (if drill then parse_dwell_of (drill_dwell st) else ''''))
                      else None);
                h2 = (if fgt0 newz then Some ''PU;'' else h1)
            in case h2 of
                 None \<Rightarrow> Inl (UnboundLocalError ''hpgl'')
               | Some hpgl \<Rightarrow> Inr hpgl))"

definition tool_marker :: "string \<Rightarrow> string \<Rightarrow> string" where
  \<open>tool_marker tool sz =
     ''PA0,0;'' @ [nl] @ ''CO "Insert tool #'' @ tool @ '': size '' @ sz @ [dquote, nl]\<close>

definition parse_tool_change :: "string \<Rightarrow> state \<Rightarrow> error + string \<times> state" where
  "parse_tool_change gcode st =
     (case re_match_tool gcode of
        None \<Rightarrow> Inl no_match
      | Some (g1, g2) \<Rightarrow>
          (let tool = strip g1; sz = strip g2; hpgl = tool_marker tool sz in
           if sz \<noteq> ''routing'' \<and> sz \<noteq> ''milling''
           then then_do (float_py sz)
                  (\<lambda>f. Inr (hpgl, st\<lparr>drill_dwell := fmul (of_int_float 20) f\<rparr>))
           else Inr (hpgl, st)))"

definition parse_spindle :: "bool \<Rightarrow> string" where
  "parse_spindle start =
     (if start then ''!OC;!RM'' @ show_int spindle_speed @ '';!CC;'' else ''!RM0;'')"

definition parse_line :: "string \<Rightarrow> bool \<Rightarrow> state \<Rightarrow> error + string \<times> state" where
  "parse_line line drill st =
     (if startswith line ''G20'' then then_do (change_units ''in'') (\<lambda>_. Inr ('''', st))
      else if startswith line ''G21'' then then_do (change_units ''mm'') (\<lambda>_. Inr ('''', st))
      else if startswith line ''G90'' then Inr (change_mode Abs st)
      else if startswith line ''G91'' then Inr (change_mode Rel st)
      else if startswith line ''G00'' \<or> startswith line ''G01'' then
        (if contains ''Z'' line
         then then_do (parse_z line drill st) (\<lambda>hpgl. Inr (hpgl, st))
         else parse_move line st)
      else if startswith line ''G04'' then then_do (parse_dwell line) (\<lambda>hpgl. Inr (hpgl, st))
      else if startswith line ''M03'' then Inr (parse_spindle True, st)
      else if startswith line ''M05'' then Inr (parse_spindle False, st)
      else if startswith line ''M06'' then parse_tool_change line st
      else Inr ('''', st))"

section \<open>The job: translation of the G-code files\<close>

text \<open>
  \<open>main\<close> up to the end of HPGL generation. A file that \<open>glob\<close> found is its path
  and its lines; the three lists are \<open>drills\<close>, \<open>routes\<close> and \<open>mills\<close>. The HPGL file
  is the temporary file of the default, modelled as the text written to it so far, which
  the replay reads back. Console output is not modelled, and neither are the command
  line and the choice of another HPGL file.
\<close>

type_synonym gfile = "string \<times> string list"

record job =
  drills :: "gfile list"
  routes :: "gfile list"
  mills :: "gfile list"
  dry :: bool
  port_input :: "string list"

text \<open>
  One \<^verbatim>\<open>for line in f\<close> loop: a stripped line that starts with a bracket is a comment,
  any other line is parsed and its HPGL written to the file; an exception leaves the
  loop and the program.
\<close>

fun process_lines :: "bool \<Rightarrow> string list \<Rightarrow> state \<times> string \<Rightarrow> error + state \<times> string" where
  "process_lines drill [] sb = Inr sb"
| "process_lines drill (l # ls) (st, buf) =
     (if startswith (strip l) ''('' then process_lines drill ls (st, buf)
      else (case parse_line (strip l) drill st of
              Inl e \<Rightarrow> Inl e
            | Inr (hpgl, st') \<Rightarrow> process_lines drill ls (st', buf @ hpgl)))"

text \<open>\<^verbatim>\<open>drills[0][-11:-8]\<close>: a slice never raises.\<close>

definition layer_of :: "string \<Rightarrow> string" where
  "layer_of path =
     (let n = length path in take ((n - 8) - (n - 11)) (drop (n - 11) path))"

text \<open>\<^verbatim>\<open>[f for f in files if sub in f][0]\<close>\<close>

definition first_with :: "string \<Rightarrow> gfile list \<Rightarrow> error + gfile" where
  "first_with sub files =
     (case filter (\<lambda>f. contains sub (fst f)) files of
        [] \<Rightarrow> Inl IndexError
      | f # _ \<Rightarrow> Inr f)"

definition layer :: "job \<Rightarrow> string" where
  "layer j = (case drills j of [] \<Rightarrow> ''top'' | f # _ \<Rightarrow> layer_of (fst f))"

definition olayer :: "job \<Rightarrow> string" where
  "olayer j = (if layer j = ''top'' then ''bot'' else ''top'')"

definition preamble :: string where
  "preamble = ''IN;!CT1;VS'' @ show_int mill_feed @ '';!OC;!SV140;!SM32;!WR0,8,8;!CC;!CM1;''"

definition flip_boundary :: string where
  \<open>flip_boundary =
     parse_spindle False @ ''PU;'' @ [nl] @ ''CO "Please flip board."'' @ [nl]\<close>

definition postamble :: string where
  "postamble = ''!OC;!RM0;!CC;PU;''"

text \<open>The tool change that the program writes itself ahead of a phase, then the loop.\<close>

definition with_tool :: "string \<Rightarrow> string list \<Rightarrow> state \<times> string \<Rightarrow> error + state \<times> string" where
  "with_tool gcode ls sb =
     then_do (parse_tool_change gcode (fst sb))
       (\<lambda>(hpgl, st'). process_lines False ls (st', snd sb @ hpgl))"

definition drill_phase :: "job \<Rightarrow> state \<times> string \<Rightarrow> error + state \<times> string" where
  "drill_phase j sb =
     (case drills j of [] \<Rightarrow> Inr sb | f # _ \<Rightarrow> process_lines True (snd f) sb)"

definition near_route_phase :: "job \<Rightarrow> state \<times> string \<Rightarrow> error + state \<times> string" where
  "near_route_phase j sb =
     (if routes j \<noteq> []
      then then_do (first_with (layer j) (routes j))
             (\<lambda>f. with_tool ''M06 T98 (routing )'' (snd f) sb)
      else Inr sb)"

definition flip_phase :: "state \<times> string \<Rightarrow> state \<times> string" where
  "flip_phase sb = (fst sb, snd sb @ flip_boundary)"

definition far_route_phase :: "job \<Rightarrow> state \<times> string \<Rightarrow> error + state \<times> string" where
  "far_route_phase j sb =
     (if length (routes j) > 1
      then then_do (first_with (olayer j) (routes j)) (\<lambda>f. process_lines False (snd f) sb)
      else Inr sb)"

definition mill_phase :: "job \<Rightarrow> state \<times> string \<Rightarrow> error + state \<times> string" where
  "mill_phase j sb =
     (case filter (\<lambda>f. contains (olayer j) (fst f)) (mills j) of
        [] \<Rightarrow> Inr sb
      | f # _ \<Rightarrow> with_tool ''M06 T99 (milling )'' (snd f) sb)"

text \<open>The whole generation: the text of the HPGL file, or the exception.\<close>

definition translate :: "job \<Rightarrow> error + string" where
  "translate j =
     (if length (drills j) > 1 then Inl (SystemExit 10)
      else
        then_do (drill_phase j (initial_state, preamble)) (\<lambda>sb1.
        then_do (near_route_phase j sb1) (\<lambda>sb2.
        then_do (far_route_phase j (flip_phase sb2)) (\<lambda>sb3.
        then_do (mill_phase j sb3) (\<lambda>sb4.
          Inr (snd sb4 @ postamble))))))"


section \<open>Machine control\<close>

text \<open>
  What the replay loop does to the outside: \<open>Write\<close> is \<^verbatim>\<open>ser.write\<close> with its bytes,
  \<open>Prompt\<close> is \<^verbatim>\<open>input\<close> with its message (without the colour codes), which
  waits for the operator.
\<close>

datatype event = Write string | Prompt string

text \<open>
  The port: \<open>SerialDummy\<close> is the class of the dry run, whose \<open>read\<close> returns the
  \<open>str\<close> \<^verbatim>\<open>''\<close>; \<open>Serial rs\<close> is the real port, \<open>rs\<close> the byte strings that the
  coming calls of \<^verbatim>\<open>ser.read(128)\<close> return (nothing once the list is used up).
\<close>

datatype channel = SerialDummy | Serial "string list"

definition is_ascii :: "string \<Rightarrow> bool" where
  "is_ascii s = list_all (\<lambda>c. (of_char c :: nat) < 128) s"

text \<open>
  \<open>send_cmd\<close>: encode and write, read, decode. \<open>str\<close> has no \<open>decode\<close>, so the
  dry run ends here with an \<open>AttributeError\<close>.
\<close>

definition send_cmd :: "channel \<Rightarrow> string \<Rightarrow> event list \<times> (error + channel)" where
  "send_cmd ser hpgl =
     (if \<not> is_ascii (hpgl @ '';'') then ([], Inl UnicodeEncodeError)
      else
        (case ser of
           SerialDummy \<Rightarrow> ([Write (hpgl @ '';'')], Inl (AttributeError ''str'' ''decode''))
         | Serial rs \<Rightarrow>
             (case rs of
                [] \<Rightarrow> ([Write (hpgl @ '';'')], Inr (Serial []))
              | r # rs' \<Rightarrow>
                  if is_ascii r then ([Write (hpgl @ '';'')], Inr (Serial rs'))
                  else ([Write (hpgl @ '';'')], Inl UnicodeDecodeError))))"

text \<open>\<open>tool_change\<close>: \<^verbatim>\<open>hpgl[hpgl.find('"') + 1:hpgl.rfind('"')]\<close> goes into the prompt;
  without a quote both indices are \<open>-1\<close> and the slice is all but the last character.\<close>

definition quoted :: "string \<Rightarrow> string" where
  "quoted hpgl =
     (if dquote \<in> set hpgl then
        (let i = length (takeWhile (\<lambda>c. c \<noteq> dquote) hpgl);
             j = length hpgl - 1 - length (takeWhile (\<lambda>c. c \<noteq> dquote) (rev hpgl))
         in take (j - (i + 1)) (drop (i + 1) hpgl))
      else butlast hpgl)"

definition tool_change :: "string \<Rightarrow> event list" where
  "tool_change hpgl = [Prompt (quoted hpgl @ [nl] @ ''Press enter when done.'')]"

definition flip_prompt :: event where
  "flip_prompt = Prompt (''Please flip board.'' @ [nl] @ ''Press Enter when ready.'')"

text \<open>The body of the inner loop, for one \<open>command\<close>.\<close>

definition replay_command :: "string \<Rightarrow> channel \<Rightarrow> event list \<times> (error + channel)" where
  "replay_command command ser =
     (if command = [] then ([], Inr ser)
      else if startswith command ''CO'' then
        (if contains ''tool'' command then (tool_change command, Inr ser)
         else if contains ''flip'' command then ([flip_prompt], Inr ser)
         else ([], Inr ser))
      else send_cmd ser command)"

fun replay_commands :: "string list \<Rightarrow> channel \<Rightarrow> event list \<times> (error + channel)" where
  "replay_commands [] ser = ([], Inr ser)"
| "replay_commands (c # cs) ser =
     (case replay_command c ser of
        (evs, Inl e) \<Rightarrow> (evs, Inl e)
      | (evs, Inr ser') \<Rightarrow>
          (case replay_commands cs ser' of (evs', r) \<Rightarrow> (evs @ evs', r)))"

text \<open>The two nested loops visit the pieces between semicolons of each line in turn.\<close>

definition commands_of :: "string \<Rightarrow> string list" where
  "commands_of buf = concat (map (split_on CHR '';'') (split_on nl buf))"

definition final_prompt :: event where
  "final_prompt = Prompt ''Wait until plotter finishes and press enter to exit''"

text \<open>The replay of the HPGL file: what happened, and the exception that ended it, if
  one did.\<close>

definition replay :: "string \<Rightarrow> channel \<Rightarrow> event list \<times> error option" where
  "replay buf ser =
     (case replay_commands (commands_of buf) ser of
        (evs, Inl e) \<Rightarrow> (evs, Some e)
      | (evs, Inr _) \<Rightarrow> (evs @ [final_prompt], None))"

definition main :: "job \<Rightarrow> event list \<times> error option" where
  "main j =
     (case translate j of
        Inl e \<Rightarrow> ([], Some e)
      | Inr buf \<Rightarrow> replay buf (if dry j then SerialDummy else Serial (port_input j)))"

section \<open>Notions used in the statements\<close>

text \<open>
  The device coordinates of a move: the two numbers that \<open>parse_move\<close> compares with
  the limits and then prints, computed from the two operand texts. In absolute mode
  they are \<open>newx\<close> and \<open>newy\<close>, in relative mode the position plus these.
\<close>

definition device_coords :: "state \<Rightarrow> string \<Rightarrow> string \<Rightarrow> error + int \<times> int" where
  "device_coords st g1 g2 =
     (case mode st of
        Abs \<Rightarrow>
          then_do (abs_coord xoff g1) (\<lambda>newx.
          then_do (abs_coord yoff g2) (\<lambda>newy. Inr (newx, newy)))
      | Rel \<Rightarrow>
          then_do (rel_coord g1) (\<lambda>newx.
          then_do (rel_coord g2) (\<lambda>newy.
            Inr (parse_move_x st + newx, parse_move_y st + newy))))"

text \<open>The text of a position command.\<close>

definition move_text :: "mode \<Rightarrow> int \<Rightarrow> int \<Rightarrow> string" where
  "move_text m cx cy =
     (case m of Abs \<Rightarrow> ''PA'' | Rel \<Rightarrow> ''PR'') @ show_int cx @ '','' @ show_int cy @ '';''"


text \<open>
  The loops that a job runs: \<open>runs_loop j drill ls sb\<close> holds when the program, on
  the files of \<open>j\<close>, reaches a \<^verbatim>\<open>for line in f\<close> loop over the lines \<open>ls\<close> with the
  state and HPGL text \<open>sb\<close>, everything before having returned. There is one rule for
  each of the four loops of \<open>main\<close>.
\<close>

inductive runs_loop :: "job \<Rightarrow> bool \<Rightarrow> string list \<Rightarrow> state \<times> string \<Rightarrow> bool"
  for j :: job where
  drill_loop:
    "drills j = [f] \<Longrightarrow> runs_loop j True (snd f) (initial_state, preamble)"
| near_loop:
    "length (drills j) \<le> 1 \<Longrightarrow>
     drill_phase j (initial_state, preamble) = Inr sb1 \<Longrightarrow>
     routes j \<noteq> [] \<Longrightarrow>
     first_with (layer j) (routes j) = Inr f \<Longrightarrow>
     parse_tool_change ''M06 T98 (routing )'' (fst sb1) = Inr (hpgl, st') \<Longrightarrow>
     runs_loop j False (snd f) (st', snd sb1 @ hpgl)"
| far_loop:
    "length (drills j) \<le> 1 \<Longrightarrow>
     drill_phase j (initial_state, preamble) = Inr sb1 \<Longrightarrow>
     near_route_phase j sb1 = Inr sb2 \<Longrightarrow>
     length (routes j) > 1 \<Longrightarrow>
     first_with (olayer j) (routes j) = Inr f \<Longrightarrow>
     runs_loop j False (snd f) (flip_phase sb2)"
| mill_loop:
    "length (drills j) \<le> 1 \<Longrightarrow>
     drill_phase j (initial_state, preamble) = Inr sb1 \<Longrightarrow>
     near_route_phase j sb1 = Inr sb2 \<Longrightarrow>
     far_route_phase j (flip_phase sb2) = Inr sb3 \<Longrightarrow>
     filter (\<lambda>f. contains (olayer j) (fst f)) (mills j) = f # fs \<Longrightarrow>
     parse_tool_change ''M06 T99 (milling )'' (fst sb3) = Inr (hpgl, st') \<Longrightarrow>
     runs_loop j False (snd f) (st', snd sb3 @ hpgl)"


text \<open>Truncation toward zero, in the words of the specification: the integer part of a
  real number, which is its floor only when the number is not negative.\<close>

definition toward_zero :: "real \<Rightarrow> int" where
  "toward_zero r = (if 0 \<le> r then \<lfloor>r\<rfloor> else \<lceil>r\<rceil>)"


text \<open>The bytes written to the port, in order, and the commands of a buffer that are
  device commands: not empty and not starting with the marker prefix.\<close>

definition writes :: "event list \<Rightarrow> string list" where
  "writes evs = concat (map (\<lambda>ev. case ev of Write w \<Rightarrow> [w] | Prompt _ \<Rightarrow> []) evs)"

definition device_commands :: "string list \<Rightarrow> string list" where
  "device_commands cs = filter (\<lambda>c. c \<noteq> [] \<and> \<not> startswith c ''CO'') cs"


section \<open>Evaluation rules\<close>

text \<open>Equations that compute the recursive functions on numerals, and the sets of
  equations used to run the program on concrete input.\<close>

lemma then_do_Inl [simp]: "then_do (Inl e) f = Inl e"
  by (simp add: then_do_def)

lemma then_do_Inr [simp]: "then_do (Inr v) f = f v"
  by (simp add: then_do_def)

lemma bitlen_nat_0: "bitlen_nat 0 = 0"
  by (subst bitlen_nat.simps) simp

lemma bitlen_nat_Suc_0: "bitlen_nat (Suc 0) = 1"
  by (subst bitlen_nat.simps) (simp add: bitlen_nat_0)

lemma bitlen_nat_numeral: "bitlen_nat (numeral k) = Suc (bitlen_nat (numeral k div 2))"
  by (subst bitlen_nat.simps) simp

lemma show_nat_0: "show_nat 0 = ''0''"
  by (subst show_nat.simps) (simp add: digit_char_def)

lemma show_nat_Suc_0: "show_nat (Suc 0) = ''1''"
  by (subst show_nat.simps) (simp add: digit_char_def)

lemma show_nat_numeral:
  "show_nat (numeral k) =
     (if (numeral k :: nat) < 10 then [digit_char (numeral k)]
      else show_nat (numeral k div 10) @ [digit_char (numeral k mod 10)])"
  by (subst show_nat.simps) simp

lemma digit_val_simps:
  "digit_val CHR ''0'' = 0" "digit_val CHR ''1'' = 1" "digit_val CHR ''2'' = 2"
  "digit_val CHR ''3'' = 3" "digit_val CHR ''4'' = 4" "digit_val CHR ''5'' = 5"
  "digit_val CHR ''6'' = 6" "digit_val CHR ''7'' = 7" "digit_val CHR ''8'' = 8"
  "digit_val CHR ''9'' = 9"
  by (simp_all add: digit_val_def)

lemmas float_eval =
  of_decimal_def fround_def scaled_floor_def scaled_round_def round_half_even_def
  bitlen_nat_0 bitlen_nat_Suc_0 bitlen_nat_numeral of_int_float_def

lemmas text_eval =
  isspace_def isdigit_def digit_val_simps strip_def startswith_def nonspace_def lower_def
  show_nat_0 show_nat_Suc_0 show_nat_numeral digit_char_def show_int_def

lemmas float_py_eval =
  float_py_def floatnumber_def number_def digitpart_def take_sign_def float_space_def
  float_strip_def

text \<open>The doubles of the configuration: \<open>133.33\<close>, \<open>0.1\<close> and \<open>0.7\<close>.\<close>

lemma calfactor_val: "calfactor = Fin False 4691132330603971 (- 45)"
  by (simp add: calfactor_def float_eval)

lemma xoff_val: "xoff = Fin False 7205759403792794 (- 56)"
  by (simp add: xoff_def float_eval)

lemma yoff_val: "yoff = Fin False 7205759403792794 (- 56)"
  by (simp add: yoff_def float_eval)

lemma initial_state_val:
  "initial_state =
     \<lparr>mode = Abs, parse_move_x = 0, parse_move_y = 0,
      drill_dwell = Fin False 6305039478318694 (- 53)\<rparr>"
  by (simp add: initial_state_def float_eval)

text \<open>The operands of the concrete lines used below.\<close>

lemma float_py_1_0: "float_py ''1.0'' = Inr (Fin False 4503599627370496 (- 52))"
  by (simp add: float_py_eval text_eval float_eval)

lemma float_py_2_0: "float_py ''2.0'' = Inr (Fin False 4503599627370496 (- 51))"
  by (simp add: float_py_eval text_eval float_eval del: add_2_eq_Suc add_2_eq_Suc')

lemma rel_scaled_1_0: "py_int (fmul calfactor (Fin False 4503599627370496 (- 52))) = Inr 133"
  by (simp add: calfactor_val float_eval)

lemma rel_scaled_2_0: "py_int (fmul calfactor (Fin False 4503599627370496 (- 51))) = Inr 266"
  by (simp add: calfactor_val float_eval)

lemma abs_coord_1_0: "abs_coord xoff ''1.0'' = Inr 146"
  by (simp add: abs_coord_def float_py_1_0 calfactor_val xoff_val float_eval)

lemma abs_coord_2_0: "abs_coord yoff ''2.0'' = Inr 279"
  by (simp add: abs_coord_def float_py_2_0 calfactor_val yoff_val float_eval)

lemma abs_coord_m0_2: "abs_coord xoff ''-0.2'' = Inr (- 13)"
  by (simp add: abs_coord_def float_py_eval text_eval calfactor_val xoff_val float_eval
      del: add_2_eq_Suc add_2_eq_Suc')

lemma abs_coord_m50: "abs_coord yoff ''-50'' = Inr (- 6653)"
  by (simp add: abs_coord_def float_py_eval text_eval calfactor_val yoff_val float_eval
      del: add_2_eq_Suc add_2_eq_Suc')

lemma float_py_m0_2: "float_py ''-0.2'' = Inr (Fin True 7205759403792794 (- 55))"
  by (simp add: float_py_eval text_eval float_eval del: add_2_eq_Suc add_2_eq_Suc')

lemma abs_scaled_1_0:
  "fmul calfactor (fadd xoff (Fin False 4503599627370496 (- 52))) =
     Fin False 5160245563664369 (- 45)"
  by (simp add: calfactor_val xoff_val float_eval)

lemma abs_scaled_2_0:
  "fmul calfactor (fadd yoff (Fin False 4503599627370496 (- 51))) =
     Fin False 4925688947134170 (- 44)"
  by (simp add: calfactor_val yoff_val float_eval)

lemma abs_scaled_m0_2:
  "fmul calfactor (fadd xoff (Fin True 7205759403792794 (- 55))) =
     Fin True 7505811728966354 (- 49)"
  by (simp add: calfactor_val xoff_val float_eval)

lemma abs_coord_400: "abs_coord xoff ''400'' = Inr 53345"
  by (simp add: abs_coord_def float_py_eval text_eval calfactor_val xoff_val float_eval
      del: add_2_eq_Suc add_2_eq_Suc')

lemma re_match_xy_runs:
  "re_match_xy ''G00 X1.0 Y2.0'' = Some (''1.0'', ''2.0'')"
  "re_match_xy ''G01 X1.0 Y2.0'' = Some (''1.0'', ''2.0'')"
  "re_match_xy ''G00 X-0.2 Y-50'' = Some (''-0.2'', ''-50'')"
  "re_match_xy ''G00 X400 Y2.0'' = Some (''400'', ''2.0'')"
  by (simp_all add: re_match_xy_def text_eval)

lemmas show_eval = show_int_def show_nat_0 show_nat_Suc_0 show_nat_numeral digit_char_def

section \<open>Basic facts\<close>

lemma xmax_pos: "0 < xmax" and ymax_pos: "0 < ymax"
  by (simp_all add: xmax_def ymax_def)

text \<open>What \<open>parse_move\<close> does once both coordinates are computed, in each mode.\<close>

lemma parse_move_abs:
  assumes "mode st = Abs" and "re_match_xy gcode = Some (g1, g2)"
    and "abs_coord xoff g1 = Inr newx" and "abs_coord yoff g2 = Inr newy"
  shows "parse_move gcode st =
           (if xmax < newx \<or> ymax < newy then Inl (SystemExit 12)
            else Inr (''PA'' @ show_int newx @ '','' @ show_int newy @ '';'',
                      st\<lparr>parse_move_x := parse_move_x st + newx,
                         parse_move_y := parse_move_y st + newy\<rparr>))"
  using assms by (simp add: parse_move_def)

lemma parse_move_rel:
  assumes "mode st = Rel" and "re_match_xy gcode = Some (g1, g2)"
    and "rel_coord g1 = Inr newx" and "rel_coord g2 = Inr newy"
  shows "parse_move gcode st =
           (if xmax < parse_move_x st + newx \<or> ymax < parse_move_y st + newy
            then Inl (SystemExit 12)
            else Inr (''PR'' @ show_int (parse_move_x st + newx) @ '','' @
                      show_int (parse_move_y st + newy) @ '';'',
                      st\<lparr>parse_move_x := parse_move_x st + newx,
                         parse_move_y := parse_move_y st + newy\<rparr>))"
  using assms by (simp add: parse_move_def)


text \<open>The text of an integer determines the integer.\<close>

lemma digit_cases: "d < 10 \<Longrightarrow> d \<in> {0, 1, 2, 3, 4, 5, 6, 7, 8, 9 :: nat}"
  by auto

lemma digit_val_digit_char: "d < 10 \<Longrightarrow> digit_val (digit_char d) = d"
  by (drule digit_cases) (auto simp: digit_char_def digit_val_def)

lemma digit_char_not_minus: "d < 10 \<Longrightarrow> digit_char d \<noteq> CHR ''-''"
  by (drule digit_cases) (auto simp: digit_char_def)

lemma read_show_nat: "foldl (\<lambda>a c. 10 * a + digit_val c) 0 (show_nat n) = n"
proof (induction n rule: show_nat.induct)
  case (1 n)
  show ?case
  proof (cases "n < 10")
    case True
    then show ?thesis
      by (subst show_nat.simps) (simp add: digit_val_digit_char)
  next
    case False
    with 1 show ?thesis
      by (subst show_nat.simps) (simp add: digit_val_digit_char)
  qed
qed

lemma show_nat_inj: "show_nat m = show_nat n \<Longrightarrow> m = n"
  by (metis read_show_nat)

lemma show_nat_hd: "\<exists>d cs. show_nat n = d # cs \<and> d \<noteq> CHR ''-''"
proof (induction n rule: show_nat.induct)
  case (1 n)
  show ?case
  proof (cases "n < 10")
    case True
    then show ?thesis
      by (subst show_nat.simps) (simp add: digit_char_not_minus)
  next
    case False
    with 1 show ?thesis
      by (subst show_nat.simps) auto
  qed
qed

lemma show_int_inj:
  assumes "show_int i = show_int j"
  shows "i = j"
proof -
  obtain d cs where i: "show_nat (nat i) = d # cs" "d \<noteq> CHR ''-''"
    using show_nat_hd by blast
  obtain d' cs' where j: "show_nat (nat j) = d' # cs'" "d' \<noteq> CHR ''-''"
    using show_nat_hd by blast
  show ?thesis
  proof (cases "i < 0")
    case True
    note ineg = this
    show ?thesis
    proof (cases "j < 0")
      case True
      with ineg assms have "show_nat (nat (- i)) = show_nat (nat (- j))"
        by (simp add: show_int_def)
      then have "nat (- i) = nat (- j)"
        by (rule show_nat_inj)
      with ineg True show ?thesis by simp
    next
      case False
      with ineg assms j show ?thesis
        by (simp add: show_int_def)
    qed
  next
    case False
    note ipos = this
    show ?thesis
    proof (cases "j < 0")
      case True
      with ipos assms i show ?thesis
        by (simp add: show_int_def)
    next
      case False
      with ipos assms have "show_nat (nat i) = show_nat (nat j)"
        by (simp add: show_int_def)
      then have "nat i = nat j"
        by (rule show_nat_inj)
      with ipos False show ?thesis by simp
    qed
  qed
qed


section \<open>Mode changes\<close>

text \<open>
  C1, as the program has it. A request for the current mode returns the empty text
  and leaves the state alone. The text \<open>sync_marker\<close> (the command \<open>OS\<close> and the marker
  line \<^verbatim>\<open>CO "wait for position response"\<close>, once each) is emitted on the way out of
  relative mode, that is from Relative to Absolute, and the mode is updated; the
  change from Absolute to Relative emits nothing and updates the mode.
\<close>

theorem change_mode_transitions:
  "(mode st = new \<longrightarrow> change_mode new st = ('''', st)) \<and>
   (mode st = Rel \<and> new = Abs \<longrightarrow> change_mode new st = (sync_marker, st\<lparr>mode := Abs\<rparr>)) \<and>
   (mode st = Abs \<and> new = Rel \<longrightarrow> change_mode new st = ('''', st\<lparr>mode := Rel\<rparr>)) \<and>
   commands_of sync_marker = [''OS'', '''', ''CO \"wait for position response\"'', '''']"
  by (simp add: change_mode_def commands_of_def sync_marker_def)

theorem change_mode_transitions_witness:
  "mode initial_state = Abs \<and>
   change_mode Abs initial_state = ('''', initial_state) \<and>
   mode (initial_state\<lparr>mode := Rel\<rparr>) = Rel \<and>
   change_mode Abs (initial_state\<lparr>mode := Rel\<rparr>) = (sync_marker, initial_state) \<and>
   change_mode Rel initial_state = ('''', initial_state\<lparr>mode := Rel\<rparr>)"
  using change_mode_transitions [of initial_state Abs]
    change_mode_transitions [of "initial_state\<lparr>mode := Rel\<rparr>" Abs]
    change_mode_transitions [of initial_state Rel]
  by (simp add: initial_state_def)

text \<open>
  C1 as the specification words it fails in both directions: entering relative mode
  from absolute mode emits no text at all, and leaving it emits the marker.
\<close>

theorem change_mode_counterexample:
  "mode initial_state = Abs \<and>
   fst (change_mode Rel initial_state) = '''' \<and>
   fst (change_mode Rel initial_state) \<noteq> sync_marker \<and>
   fst (change_mode Abs (initial_state\<lparr>mode := Rel\<rparr>)) = sync_marker \<and>
   fst (change_mode Abs (initial_state\<lparr>mode := Rel\<rparr>)) \<noteq> ''''"
  by (simp add: change_mode_def initial_state_def sync_marker_def)


section \<open>Relative moves\<close>

text \<open>
  C3. In relative mode, a line that matches, whose operands are floats with integer
  parts \<open>dx\<close> and \<open>dy\<close> after scaling by the calibration factor, and whose running
  totals stay within the bed, yields \<open>PR\<close> with the running totals (position plus
  delta), and the position afterwards is the pair that was emitted. The operand differs
  from the delta alone on every axis whose position was not zero.
\<close>

theorem relative_move_running_total:
  assumes "mode st = Rel"
    and "re_match_xy gcode = Some (g1, g2)"
    and "float_py g1 = Inr fx" and "py_int (fmul calfactor fx) = Inr dx"
    and "float_py g2 = Inr fy" and "py_int (fmul calfactor fy) = Inr dy"
    and "parse_move_x st + dx \<le> xmax" and "parse_move_y st + dy \<le> ymax"
  shows "parse_move gcode st =
           Inr (''PR'' @ show_int (parse_move_x st + dx) @ '','' @
                show_int (parse_move_y st + dy) @ '';'',
                st\<lparr>parse_move_x := parse_move_x st + dx,
                   parse_move_y := parse_move_y st + dy\<rparr>) \<and>
         (parse_move_x st \<noteq> 0 \<longrightarrow> show_int (parse_move_x st + dx) \<noteq> show_int dx) \<and>
         (parse_move_y st \<noteq> 0 \<longrightarrow> show_int (parse_move_y st + dy) \<noteq> show_int dy)"
proof -
  have "rel_coord g1 = Inr dx" and "rel_coord g2 = Inr dy"
    using assms by (simp_all add: rel_coord_def)
  with assms have "parse_move gcode st =
           Inr (''PR'' @ show_int (parse_move_x st + dx) @ '','' @
                show_int (parse_move_y st + dy) @ '';'',
                st\<lparr>parse_move_x := parse_move_x st + dx,
                   parse_move_y := parse_move_y st + dy\<rparr>)"
    by (simp add: parse_move_rel)
  moreover have "parse_move_x st \<noteq> 0 \<longrightarrow> show_int (parse_move_x st + dx) \<noteq> show_int dx"
    using show_int_inj [of "parse_move_x st + dx" dx] by auto
  moreover have "parse_move_y st \<noteq> 0 \<longrightarrow> show_int (parse_move_y st + dy) \<noteq> show_int dy"
    using show_int_inj [of "parse_move_y st + dy" dy] by auto
  ultimately show ?thesis
    by simp
qed

theorem relative_move_running_total_witness:
  "parse_move ''G01 X1.0 Y2.0''
     \<lparr>mode = Rel, parse_move_x = 100, parse_move_y = 50, drill_dwell = NaN\<rparr> =
   Inr (''PR233,316;'',
        \<lparr>mode = Rel, parse_move_x = 233, parse_move_y = 316, drill_dwell = NaN\<rparr>) \<and>
   show_int 233 \<noteq> show_int 133 \<and> show_int 316 \<noteq> show_int 266"
  using relative_move_running_total
    [where st = "\<lparr>mode = Rel, parse_move_x = 100, parse_move_y = 50, drill_dwell = NaN\<rparr>"
       and gcode = "''G01 X1.0 Y2.0''" and ?g1.0 = "''1.0''" and ?g2.0 = "''2.0''"
       and fx = "Fin False 4503599627370496 (- 52)" and dx = 133
       and fy = "Fin False 4503599627370496 (- 51)" and dy = 266]
  by (simp add: re_match_xy_runs float_py_1_0 float_py_2_0 rel_scaled_1_0 rel_scaled_2_0
      xmax_def ymax_def show_eval)

text \<open>A line that matches the pattern of an XY move and holds no \<open>Z\<close> is dispatched to
  \<open>parse_move\<close>, and it is no comment.\<close>

lemma startswithD: "startswith s p \<Longrightarrow> s = p @ drop (length p) s"
  by (metis append_take_drop_id startswith_def)

lemma re_match_xy_prefix:
  assumes "re_match_xy line = Some (g1, g2)"
  shows "\<exists>r. line = ''G00 X'' @ r \<or> line = ''G01 X'' @ r"
proof -
  from assms have "startswith line ''G00 X'' \<or> startswith line ''G01 X''"
    by (auto simp: re_match_xy_def split: if_splits)
  then show ?thesis
    by (metis startswithD)
qed

lemma parse_line_xy:
  assumes "re_match_xy line = Some (g1, g2)" and "\<not> contains ''Z'' line"
  shows "parse_line line drill st = parse_move line st"
proof -
  from re_match_xy_prefix [OF assms(1)]
  obtain r where "line = ''G00 X'' @ r \<or> line = ''G01 X'' @ r" ..
  with assms(2) show ?thesis
    by (auto simp: parse_line_def startswith_def)
qed

lemma move_not_comment:
  assumes "re_match_xy line = Some (g1, g2)"
  shows "\<not> startswith line ''(''"
proof -
  from re_match_xy_prefix [OF assms]
  obtain r where "line = ''G00 X'' @ r \<or> line = ''G01 X'' @ r" ..
  then show ?thesis
    by (auto simp: startswith_def)
qed

text \<open>\<open>parse_move\<close> in terms of the device coordinates, in either mode.\<close>

lemma parse_move_coords:
  assumes "re_match_xy gcode = Some (g1, g2)" and "device_coords st g1 g2 = Inr (cx, cy)"
  shows "parse_move gcode st =
           (if xmax < cx \<or> ymax < cy then Inl (SystemExit 12)
            else Inr (move_text (mode st) cx cy,
                      st\<lparr>parse_move_x :=
                           (case mode st of Abs \<Rightarrow> parse_move_x st + cx | Rel \<Rightarrow> cx),
                         parse_move_y :=
                           (case mode st of Abs \<Rightarrow> parse_move_y st + cy | Rel \<Rightarrow> cy)\<rparr>))"
proof (cases "mode st")
  case Abs
  with assms(2) obtain "abs_coord xoff g1 = Inr cx" and "abs_coord yoff g2 = Inr cy"
    by (auto simp: device_coords_def then_do_def split: sum.splits)
  with Abs assms(1) show ?thesis
    by (simp add: parse_move_abs move_text_def)
next
  case Rel
  with assms(2) obtain newx newy where "rel_coord g1 = Inr newx" and "rel_coord g2 = Inr newy"
    and "cx = parse_move_x st + newx" and "cy = parse_move_y st + newy"
    by (auto simp: device_coords_def then_do_def split: sum.splits)
  with Rel assms(1) show ?thesis
    by (simp add: parse_move_rel move_text_def)
qed


section \<open>The bounds check\<close>

text \<open>
  C9. For a line that matches, with device coordinates \<open>cx\<close> and \<open>cy\<close>: the program
  exits with status 12 exactly when one of them is strictly above its limit. A
  coordinate that is zero or negative never causes the exit, and it is printed in the
  position command as it is.
\<close>

theorem bounds_check_upper_only:
  assumes "re_match_xy gcode = Some (g1, g2)" and "device_coords st g1 g2 = Inr (cx, cy)"
  shows "(parse_move gcode st = Inl (SystemExit 12)) = (xmax < cx \<or> ymax < cy) \<and>
         ((cx \<le> 0 \<and> cy \<le> ymax) \<or> (cy \<le> 0 \<and> cx \<le> xmax) \<longrightarrow>
            (\<exists>st'. parse_move gcode st = Inr (move_text (mode st) cx cy, st')))"
  using xmax_pos ymax_pos by (auto simp: parse_move_coords [OF assms])

theorem bounds_check_upper_only_witness:
  "device_coords initial_state ''-0.2'' ''-50'' = Inr (- 13, - 6653) \<and>
   parse_move ''G00 X-0.2 Y-50'' initial_state \<noteq> Inl (SystemExit 12) \<and>
   (\<exists>st'. parse_move ''G00 X-0.2 Y-50'' initial_state = Inr (''PA-13,-6653;'', st'))"
  using bounds_check_upper_only
    [where gcode = "''G00 X-0.2 Y-50''" and ?g1.0 = "''-0.2''" and ?g2.0 = "''-50''"
       and st = initial_state and cx = "- 13" and cy = "- 6653"]
  by (simp add: re_match_xy_runs device_coords_def abs_coord_m0_2 abs_coord_m50
      initial_state_val move_text_def xmax_def ymax_def show_eval)


section \<open>Unknown markers in the replay\<close>

text \<open>A command that does nothing can be left out of the replay.\<close>

lemma replay_commands_skip:
  assumes "\<And>ser. replay_command c ser = ([], Inr ser)"
  shows "replay_commands (cs @ c # cs') ser = replay_commands (cs @ cs') ser"
proof (induction cs arbitrary: ser)
  case Nil
  show ?case
    by (simp add: assms split: prod.splits)
next
  case (Cons a cs)
  show ?case
    by (simp add: Cons.IH split: prod.splits sum.splits)
qed

text \<open>
  C10. In the replay loop a command that starts with \<open>CO\<close> and holds neither
  \<open>tool\<close> nor \<open>flip\<close> does nothing: no write to the port, no prompt, no exception,
  and the port is as before. The replay of a list of commands is the same with it as
  without it.
\<close>

theorem unknown_marker_discarded:
  assumes "startswith command ''CO''"
    and "\<not> contains ''tool'' command" and "\<not> contains ''flip'' command"
  shows "replay_command command ser = ([], Inr ser) \<and>
         replay_commands (cs @ command # cs') ser = replay_commands (cs @ cs') ser"
proof -
  have "replay_command command ser' = ([], Inr ser')" for ser'
    using assms by (auto simp: replay_command_def startswith_def)
  then show ?thesis
    by (simp add: replay_commands_skip)
qed

text \<open>The marker of the mode change is such a command: of the text that
  \<open>change_mode\<close> emits, only \<open>OS\<close> reaches the port.\<close>

theorem unknown_marker_discarded_witness:
  "replay_command ''CO \"wait for position response\"'' SerialDummy = ([], Inr SerialDummy) \<and>
   replay_commands (commands_of sync_marker) (Serial []) = ([Write ''OS;''], Inr (Serial []))"
  using unknown_marker_discarded
    [of "''CO \"wait for position response\"''" SerialDummy]
  by (simp add: startswith_def commands_of_def sync_marker_def replay_command_def
      send_cmd_def is_ascii_def)

section \<open>Out of bounds\<close>

lemma process_lines_append:
  "process_lines drill (xs @ ys) sb =
     then_do (process_lines drill xs sb) (process_lines drill ys)"
proof (induction xs arbitrary: sb)
  case Nil
  show ?case by simp
next
  case (Cons x xs)
  obtain st buf where sb: "sb = (st, buf)"
    by (cases sb)
  show ?case
    unfolding sb by (auto simp: Cons.IH split: sum.splits)
qed

text \<open>An exception in any of the loops is the result of the whole generation, and
  then nothing is replayed: no write, no prompt.\<close>

lemma runs_loop_error:
  assumes "runs_loop j drill ls sb" and "process_lines drill ls sb = Inl e"
  shows "translate j = Inl e"
  using assms
proof (cases rule: runs_loop.cases)
  case (drill_loop f)
  with assms(2) show ?thesis
    by (simp add: translate_def drill_phase_def)
next
  case (near_loop sb1 f hpgl st')
  with assms(2) show ?thesis
    by (simp add: translate_def near_route_phase_def with_tool_def)
next
  case (far_loop sb1 sb2 f)
  with assms(2) show ?thesis
    by (simp add: translate_def far_route_phase_def)
next
  case (mill_loop sb1 sb2 sb3 f fs hpgl st')
  with assms(2) show ?thesis
    by (simp add: translate_def mill_phase_def with_tool_def)
qed

lemma translate_error_no_replay: "translate j = Inl e \<Longrightarrow> main j = ([], Some e)"
  by (simp add: main_def)

text \<open>
  C6. Let a loop of the job come to a line that matches the pattern of an XY move, is
  dispatched as one, and has a device coordinate above its limit, in either mode. Then
  the loop ends with \<^verbatim>\<open>sys.exit(12)\<close> whatever lines follow, this is the result of the
  whole generation, and the program ends without a write to the port or a prompt.
\<close>

theorem out_of_bounds_aborts_run:
  assumes "runs_loop j drill (pre @ l # post) sb"
    and "process_lines drill pre sb = Inr (st, buf)"
    and "re_match_xy (strip l) = Some (g1, g2)" and "\<not> contains ''Z'' (strip l)"
    and "device_coords st g1 g2 = Inr (cx, cy)" and "xmax < cx \<or> ymax < cy"
  shows "process_lines drill (pre @ l # post) sb = Inl (SystemExit 12) \<and>
         translate j = Inl (SystemExit 12) \<and>
         main j = ([], Some (SystemExit 12))"
proof -
  have "parse_line (strip l) drill st = Inl (SystemExit 12)"
    using assms(3-6) by (simp add: parse_line_xy parse_move_coords)
  moreover have "\<not> startswith (strip l) ''(''"
    using assms(3) by (rule move_not_comment)
  ultimately have "process_lines drill (l # post) (st, buf) = Inl (SystemExit 12)"
    by simp
  with assms(2) have loop: "process_lines drill (pre @ l # post) sb = Inl (SystemExit 12)"
    by (simp add: process_lines_append)
  from runs_loop_error [OF assms(1) loop] have "translate j = Inl (SystemExit 12)" .
  with loop show ?thesis
    by (simp add: translate_error_no_replay)
qed

text \<open>Two concrete lines in absolute mode: one within the bed, one beyond it.\<close>

lemma line_1_2:
  assumes "mode st = Abs"
  shows "parse_line ''G00 X1.0 Y2.0'' drill st =
           Inr (''PA146,279;'',
                st\<lparr>parse_move_x := parse_move_x st + 146,
                   parse_move_y := parse_move_y st + 279\<rparr>)"
proof -
  have "parse_line ''G00 X1.0 Y2.0'' drill st = parse_move ''G00 X1.0 Y2.0'' st"
    by (rule parse_line_xy [OF re_match_xy_runs(1)]) (simp add: startswith_def)
  also have "\<dots> = Inr (''PA146,279;'',
                st\<lparr>parse_move_x := parse_move_x st + 146,
                   parse_move_y := parse_move_y st + 279\<rparr>)"
    by (simp add: parse_move_abs [OF assms re_match_xy_runs(1) abs_coord_1_0 abs_coord_2_0]
        xmax_def ymax_def show_eval)
  finally show ?thesis .
qed

lemma strip_runs:
  "strip ''G00 X1.0 Y2.0'' = ''G00 X1.0 Y2.0''"
  "strip ''G00 X400 Y2.0'' = ''G00 X400 Y2.0''"
  by (simp_all add: strip_def isspace_def)

theorem out_of_bounds_aborts_run_witness:
  "main \<lparr>drills = [(''b.top.drill.g'', [''G00 X1.0 Y2.0'', ''G00 X400 Y2.0'', ''M05''])],
         routes = [], mills = [], dry = False, port_input = []\<rparr> =
   ([], Some (SystemExit 12))"
proof -
  let ?f = "(''b.top.drill.g'', [''G00 X1.0 Y2.0'', ''G00 X400 Y2.0'', ''M05''])"
  let ?j = "\<lparr>drills = [?f], routes = [], mills = [], dry = False, port_input = []\<rparr>"
  let ?st = "initial_state\<lparr>parse_move_x := 146, parse_move_y := 279\<rparr>"
  have loop: "runs_loop ?j True ([''G00 X1.0 Y2.0''] @ ''G00 X400 Y2.0'' # [''M05''])
                (initial_state, preamble)"
    using runs_loop.drill_loop [of ?j ?f] by simp
  have pre: "process_lines True [''G00 X1.0 Y2.0''] (initial_state, preamble) =
               Inr (?st, preamble @ ''PA146,279;'')"
    by (simp add: strip_runs startswith_def line_1_2 initial_state_val)
  have coords: "device_coords ?st ''400'' ''2.0'' = Inr (53345, 279)"
    by (simp add: device_coords_def initial_state_val abs_coord_400 abs_coord_2_0)
  have z: "\<not> contains ''Z'' (strip ''G00 X400 Y2.0'')"
    by (simp add: strip_runs startswith_def)
  have m: "re_match_xy (strip ''G00 X400 Y2.0'') = Some (''400'', ''2.0'')"
    by (simp add: strip_runs re_match_xy_runs)
  have "xmax < 53345 \<or> ymax < (279 :: int)"
    by (simp add: xmax_def)
  from out_of_bounds_aborts_run [OF loop pre m z coords this] show ?thesis
    by simp
qed


section \<open>Absolute moves\<close>

text \<open>
  C2, on the program: the same absolute move twice from the start. Both times the
  command is \<open>PA146,279\<close>. After the first move the position is (146, 279), from
  (0, 0); after the second it is (292, 558), not the (146, 279) that was emitted: the
  last two statements of \<open>parse_move\<close> add to the position in absolute mode too.
\<close>

theorem absolute_move_accumulates:
  "parse_move ''G00 X1.0 Y2.0'' initial_state =
     Inr (''PA146,279;'', initial_state\<lparr>parse_move_x := 146, parse_move_y := 279\<rparr>) \<and>
   parse_move ''G00 X1.0 Y2.0'' (initial_state\<lparr>parse_move_x := 146, parse_move_y := 279\<rparr>) =
     Inr (''PA146,279;'', initial_state\<lparr>parse_move_x := 292, parse_move_y := 558\<rparr>) \<and>
   process_lines False [''G00 X1.0 Y2.0'', ''G00 X1.0 Y2.0''] (initial_state, '''') =
     Inr (initial_state\<lparr>parse_move_x := 292, parse_move_y := 558\<rparr>, ''PA146,279;PA146,279;'')"
  by (simp add: parse_move_abs [OF _ re_match_xy_runs(1) abs_coord_1_0 abs_coord_2_0]
      strip_runs startswith_def line_1_2 initial_state_val xmax_def ymax_def show_eval)

text \<open>\<open>int\<close> of a finite float is its value truncated toward zero.\<close>

lemma toward_zero_neg: "0 \<le> r \<Longrightarrow> toward_zero (- r) = - \<lfloor>r\<rfloor>"
  by (cases "r = 0") (simp_all add: toward_zero_def ceiling_def)

lemma py_int_toward_zero: "py_int (Fin s m e) = Inr (toward_zero (valof (Fin s m e)))"
proof -
  define r :: real where "r = (if 0 \<le> e then real m * 2 ^ nat e else real m / 2 ^ nat (- e))"
  define i :: int where "i = (if 0 \<le> e then int m * 2 ^ nat e else int (m div 2 ^ nat (- e)))"
  have r0: "0 \<le> r"
    by (simp add: r_def)
  have "\<lfloor>r\<rfloor> = i"
  proof (cases "0 \<le> e")
    case True
    have "r = of_int (int m * 2 ^ nat e)"
      using True by (simp add: r_def)
    then show ?thesis
      using True by (simp add: i_def del: of_int_mult of_int_power)
  next
    case False
    have "r = real m / real (2 ^ nat (- e))"
      using False by (simp add: r_def)
    then have "\<lfloor>r\<rfloor> = int (m div 2 ^ nat (- e))"
      by (simp only: floor_divide_of_nat_eq)
    then show ?thesis
      using False by (simp add: i_def)
  qed
  then have "toward_zero r = i" and "toward_zero (- r) = - i"
    using r0 by (simp_all add: toward_zero_neg) (simp add: toward_zero_def)
  then show ?thesis
    by (cases s) (simp_all add: r_def i_def)
qed

text \<open>
  C7, as the program has it. In absolute mode, for a line that matches and whose
  operands are floats: the program computes the double
  \<^verbatim>\<open>calfactor * (xoff + operand)\<close>; when it is finite, the coordinate in the \<open>PA\<close>
  command is its value truncated toward zero, which is the floor for a product that is
  not negative and the ceiling for a negative one (the move being within the bed).
\<close>

theorem absolute_move_truncates:
  assumes "mode st = Abs" and "re_match_xy gcode = Some (g1, g2)"
    and "float_py g1 = Inr fx" and "fmul calfactor (fadd xoff fx) = Fin sx mx ex"
    and "float_py g2 = Inr fy" and "fmul calfactor (fadd yoff fy) = Fin sy my ey"
    and "toward_zero (valof (Fin sx mx ex)) \<le> xmax"
    and "toward_zero (valof (Fin sy my ey)) \<le> ymax"
  shows "\<exists>st'. parse_move gcode st =
           Inr (''PA'' @ show_int (toward_zero (valof (fmul calfactor (fadd xoff fx)))) @ '','' @
                show_int (toward_zero (valof (fmul calfactor (fadd yoff fy)))) @ '';'', st')"
proof -
  have "abs_coord xoff g1 = Inr (toward_zero (valof (Fin sx mx ex)))"
    and "abs_coord yoff g2 = Inr (toward_zero (valof (Fin sy my ey)))"
    using assms(3-6)
    by (simp_all add: abs_coord_def py_int_toward_zero del: py_int.simps valof.simps)
  from parse_move_abs [OF assms(1,2) this] assms(4,6-8) show ?thesis
    by (simp del: valof.simps)
qed

text \<open>The example of the specification: operands (1.0, 2.0) give \<open>PA146,279\<close>, from
  the doubles nearest to 146.663 and 279.993.\<close>

theorem absolute_move_truncates_witness:
  "toward_zero (valof (Fin False 5160245563664369 (- 45))) = 146 \<and>
   toward_zero (valof (Fin False 4925688947134170 (- 44))) = 279 \<and>
   (\<exists>st'. parse_move ''G00 X1.0 Y2.0'' initial_state = Inr (''PA146,279;'', st'))"
  using absolute_move_truncates
    [where st = initial_state and gcode = "''G00 X1.0 Y2.0''"
       and ?g1.0 = "''1.0''" and ?g2.0 = "''2.0''"
       and fx = "Fin False 4503599627370496 (- 52)"
       and fy = "Fin False 4503599627370496 (- 51)"
       and sx = False and mx = 5160245563664369 and ex = "- 45"
       and sy = False and my = 4925688947134170 and ey = "- 44"]
  by (simp add: re_match_xy_runs float_py_1_0 float_py_2_0 abs_scaled_1_0 abs_scaled_2_0
      initial_state_val toward_zero_def xmax_def ymax_def show_eval)

text \<open>
  C7 with \<open>floor\<close> read as the floor fails for a negative product: the operand
  \<open>-0.2\<close> gives the double nearest to \<open>-13.333\<close>, whose floor is \<open>-14\<close>, and the
  program emits \<open>-13\<close>.
\<close>

theorem absolute_move_floor_counterexample:
  "float_py ''-0.2'' = Inr (Fin True 7205759403792794 (- 55)) \<and>
   fmul calfactor (fadd xoff (Fin True 7205759403792794 (- 55))) =
     Fin True 7505811728966354 (- 49) \<and>
   \<lfloor>valof (Fin True 7505811728966354 (- 49))\<rfloor> = - 14 \<and>
   parse_move ''G00 X-0.2 Y-50'' initial_state =
     Inr (''PA-13,-6653;'', initial_state\<lparr>parse_move_x := - 13, parse_move_y := - 6653\<rparr>)"
  by (simp add: float_py_m0_2 abs_scaled_m0_2 initial_state_val xmax_def ymax_def show_eval
      parse_move_abs [OF _ re_match_xy_runs(3) abs_coord_m0_2 abs_coord_m50])

section \<open>Malformed lines\<close>

text \<open>The dispatch of \<open>parse_line\<close> for moves, dwells and tool changes.\<close>

lemma parse_line_move:
  assumes "startswith line ''G00'' \<or> startswith line ''G01''"
  shows "parse_line line drill st =
           (if contains ''Z'' line
            then then_do (parse_z line drill st) (\<lambda>hpgl. Inr (hpgl, st))
            else parse_move line st)"
  using assms by (auto simp: parse_line_def startswith_def)

lemma parse_line_dwell:
  assumes "startswith line ''G04''"
  shows "parse_line line drill st = then_do (parse_dwell line) (\<lambda>hpgl. Inr (hpgl, st))"
  using assms by (auto simp: parse_line_def startswith_def)

lemma parse_line_tool:
  assumes "startswith line ''M06''"
  shows "parse_line line drill st = parse_tool_change line st"
  using assms by (auto simp: parse_line_def startswith_def)

lemma parse_move_no_match: "re_match_xy gcode = None \<Longrightarrow> parse_move gcode st = Inl no_match"
  by (simp add: parse_move_def split: mode.splits)

lemma parse_move_coords_error:
  assumes "re_match_xy gcode = Some (g1, g2)" and "device_coords st g1 g2 = Inl e"
  shows "parse_move gcode st = Inl e"
  using assms
  by (auto simp: parse_move_def device_coords_def then_do_def split: mode.splits sum.splits)

text \<open>The only exception of \<open>float\<close> is the \<open>ValueError\<close> that names its argument.\<close>

lemma float_py_error: "float_py s = Inl e \<Longrightarrow> e = ValueError_float s"
  by (auto simp: float_py_def split: prod.splits if_splits option.splits)

text \<open>
  C4, as the program has it. A move, a Z move or a tool change whose line does not
  match the pattern of its parse function ends the translation with the
  \<open>AttributeError\<close> of the failed match, \<^verbatim>\<open>'NoneType' object has no attribute 'group'\<close>,
  which carries nothing of the line. A line that matches but whose operand is no number,
  and a dwell whose text after the first \<open>P\<close> is no number, end it with the exception of
  the conversion. Nothing is caught, and there is no other error for a malformed line.
\<close>

theorem malformed_line_raises:
  "((startswith line ''G00'' \<or> startswith line ''G01'') \<and> \<not> contains ''Z'' line \<and>
      re_match_xy line = None \<longrightarrow>
      parse_line line drill st = Inl (AttributeError ''NoneType'' ''group'')) \<and>
   ((startswith line ''G00'' \<or> startswith line ''G01'') \<and> \<not> contains ''Z'' line \<and>
      re_match_xy line = Some (g1, g2) \<and> device_coords st g1 g2 = Inl e \<longrightarrow>
      parse_line line drill st = Inl e) \<and>
   ((startswith line ''G00'' \<or> startswith line ''G01'') \<and> contains ''Z'' line \<and>
      re_match_z line = None \<longrightarrow>
      parse_line line drill st = Inl (AttributeError ''NoneType'' ''group'')) \<and>
   ((startswith line ''G00'' \<or> startswith line ''G01'') \<and> contains ''Z'' line \<and>
      re_match_z line = Some g \<and> float_py g = Inl e \<longrightarrow>
      parse_line line drill st = Inl e) \<and>
   (startswith line ''M06'' \<and> re_match_tool line = None \<longrightarrow>
      parse_line line drill st = Inl (AttributeError ''NoneType'' ''group'')) \<and>
   (startswith line ''M06'' \<and> re_match_tool line = Some (g1, g2) \<and>
      strip g2 \<noteq> ''routing'' \<and> strip g2 \<noteq> ''milling'' \<and> float_py (strip g2) = Inl e \<longrightarrow>
      parse_line line drill st = Inl e) \<and>
   (startswith line ''G04'' \<and> float_py (after_P line) = Inl e \<longrightarrow>
      parse_line line drill st = Inl e)"
  by (auto simp: parse_line_move parse_line_dwell parse_line_tool parse_move_no_match
      parse_move_coords_error parse_z_def parse_tool_change_def parse_dwell_def no_match_def)

theorem malformed_line_raises_witness:
  "parse_line ''G00 X1.0'' False initial_state = Inl (AttributeError ''NoneType'' ''group'') \<and>
   parse_line ''G00 Xabc Y1'' False initial_state = Inl (ValueError_float ''abc'') \<and>
   parse_line ''G01 X1 Z2'' False initial_state = Inl (AttributeError ''NoneType'' ''group'') \<and>
   parse_line ''G00 Zup'' False initial_state = Inl (ValueError_float ''up'') \<and>
   parse_line ''M06 T1'' False initial_state = Inl (AttributeError ''NoneType'' ''group'') \<and>
   parse_line ''M06 T1 (big)'' False initial_state = Inl (ValueError_float ''big'') \<and>
   parse_line ''G04 Pabc'' False initial_state = Inl (ValueError_float ''abc'')"
  using
    malformed_line_raises [where line = "''G00 X1.0''" and drill = False
      and st = initial_state, THEN conjunct1]
    malformed_line_raises [where line = "''G00 Xabc Y1''" and ?g1.0 = "''abc''"
      and ?g2.0 = "''1''" and e = "ValueError_float ''abc''" and drill = False
      and st = initial_state, THEN conjunct2, THEN conjunct1]
    malformed_line_raises [where line = "''G01 X1 Z2''" and drill = False
      and st = initial_state, THEN conjunct2, THEN conjunct2, THEN conjunct1]
    malformed_line_raises [where line = "''G00 Zup''" and g = "''up''"
      and e = "ValueError_float ''up''" and drill = False and st = initial_state,
      THEN conjunct2, THEN conjunct2, THEN conjunct2, THEN conjunct1]
    malformed_line_raises [where line = "''M06 T1''" and drill = False
      and st = initial_state,
      THEN conjunct2, THEN conjunct2, THEN conjunct2, THEN conjunct2, THEN conjunct1]
    malformed_line_raises [where line = "''M06 T1 (big)''" and ?g1.0 = "''1''"
      and ?g2.0 = "''big''" and e = "ValueError_float ''big''" and drill = False
      and st = initial_state,
      THEN conjunct2, THEN conjunct2, THEN conjunct2, THEN conjunct2, THEN conjunct2,
      THEN conjunct1]
    malformed_line_raises [where line = "''G04 Pabc''" and e = "ValueError_float ''abc''"
      and drill = False and st = initial_state,
      THEN conjunct2, THEN conjunct2, THEN conjunct2, THEN conjunct2, THEN conjunct2,
      THEN conjunct2]
  by (simp add: startswith_def re_match_xy_def re_match_z_def re_match_tool_def nonspace_def
      isspace_def isdigit_def strip_def device_coords_def abs_coord_def initial_state_val
      after_P_def float_py_eval lower_def)

text \<open>
  C4 as the specification words it fails: a move without its \<open>Y\<close> operand ends with
  the very crash on the missing match, an exception that carries no line.
\<close>

theorem malformed_line_counterexample:
  "re_match_xy ''G00 X1.0'' = None \<and>
   parse_line ''G00 X1.0'' False initial_state = Inl (AttributeError ''NoneType'' ''group'')"
  by (simp add: parse_line_def parse_move_def no_match_def re_match_xy_def startswith_def
      nonspace_def isspace_def initial_state_val)

section \<open>The flip boundary\<close>

lemma process_lines_extends:
  "process_lines drill ls (st, buf) = Inr (st', buf') \<Longrightarrow> \<exists>out. buf' = buf @ out"
proof (induction ls arbitrary: st buf)
  case Nil
  then show ?case by simp
next
  case (Cons l ls)
  show ?case
  proof (cases "startswith (strip l) ''(''")
    case True
    with Cons show ?thesis by simp
  next
    case False
    with Cons.prems obtain hpgl st1 where "parse_line (strip l) drill st = Inr (hpgl, st1)"
      and "process_lines drill ls (st1, buf @ hpgl) = Inr (st', buf')"
      by (auto split: sum.splits)
    with Cons.IH [of st1 "buf @ hpgl"] show ?thesis by auto
  qed
qed

lemma with_tool_extends:
  assumes "with_tool gcode ls sb = Inr sb'"
  shows "\<exists>out. snd sb' = snd sb @ out"
proof -
  from assms obtain hpgl st1 where "process_lines False ls (st1, snd sb @ hpgl) = Inr sb'"
    by (auto simp: with_tool_def then_do_def split: sum.splits)
  with process_lines_extends [of False ls st1 "snd sb @ hpgl" "fst sb'" "snd sb'"]
  show ?thesis by auto
qed

lemma far_route_phase_extends:
  assumes "far_route_phase j sb = Inr sb'"
  shows "\<exists>out. snd sb' = snd sb @ out \<and> (length (routes j) \<le> 1 \<longrightarrow> out = [])"
proof (cases "length (routes j) \<le> 1")
  case True
  with assms show ?thesis
    by (simp add: far_route_phase_def)
next
  case False
  with assms obtain f where "process_lines False (snd f) sb = Inr sb'"
    by (auto simp: far_route_phase_def then_do_def split: sum.splits)
  with process_lines_extends [of False "snd f" "fst sb" "snd sb" "fst sb'" "snd sb'"] False
  show ?thesis by auto
qed

lemma mill_phase_extends:
  assumes "mill_phase j sb = Inr sb'"
  shows "\<exists>out. snd sb' = snd sb @ out \<and>
           (filter (\<lambda>f. contains (olayer j) (fst f)) (mills j) = [] \<longrightarrow> out = [])"
proof (cases "filter (\<lambda>f. contains (olayer j) (fst f)) (mills j)")
  case Nil
  with assms show ?thesis
    by (simp add: mill_phase_def)
next
  case (Cons f fs)
  with assms have "with_tool ''M06 T99 (milling )'' (snd f) sb = Inr sb'"
    by (simp add: mill_phase_def)
  from with_tool_extends [OF this] Cons show ?thesis
    by auto
qed

lemma contains_append: "contains sub (pre @ sub @ post)"
proof (induction pre)
  case Nil
  show ?case
  proof (cases "sub @ post")
    case Nil
    then show ?thesis by simp
  next
    case (Cons a list)
    have "startswith (sub @ post) sub"
      by (simp add: startswith_def)
    then show ?thesis
      unfolding append_Nil Cons by simp
  qed
next
  case (Cons c pre)
  then show ?case by simp
qed

text \<open>
  C5, as the program has it. The three statements of the flip boundary stand between
  the near-side route and the far-side route without a condition. So whenever the
  generation completes, the HPGL text is the text after the near-side phases, the flip
  boundary (spindle off, pen up, the \<^verbatim>\<open>Please flip board.\<close> marker), what the far-side
  route and the mill phase add, and the closing commands; with at most one route file
  and no mill file of the other side these two phases add nothing, and the flip
  boundary is still there.
\<close>

theorem flip_boundary_unconditional:
  assumes "translate j = Inr buf"
  shows "contains flip_boundary buf \<and>
         (\<exists>sb1 sb2 far.
            drill_phase j (initial_state, preamble) = Inr sb1 \<and>
            near_route_phase j sb1 = Inr sb2 \<and>
            buf = snd sb2 @ flip_boundary @ far @ postamble \<and>
            (length (routes j) \<le> 1 \<and>
             filter (\<lambda>f. contains (olayer j) (fst f)) (mills j) = [] \<longrightarrow> far = []))"
proof -
  from assms obtain sb1 sb2 sb3 sb4 where
    p1: "drill_phase j (initial_state, preamble) = Inr sb1" and
    p2: "near_route_phase j sb1 = Inr sb2" and
    p3: "far_route_phase j (flip_phase sb2) = Inr sb3" and
    p4: "mill_phase j sb3 = Inr sb4" and
    buf: "buf = snd sb4 @ postamble"
    by (auto simp: translate_def then_do_def split: if_splits sum.splits)
  from far_route_phase_extends [OF p3] obtain out1 where
    o1: "snd sb3 = snd sb2 @ flip_boundary @ out1" "length (routes j) \<le> 1 \<longrightarrow> out1 = []"
    by (auto simp: flip_phase_def)
  from mill_phase_extends [OF p4] obtain out2 where
    o2: "snd sb4 = snd sb3 @ out2"
      "filter (\<lambda>f. contains (olayer j) (fst f)) (mills j) = [] \<longrightarrow> out2 = []"
    by auto
  have eq: "buf = snd sb2 @ flip_boundary @ (out1 @ out2) @ postamble"
    using buf o1(1) o2(1) by simp
  then have "contains flip_boundary buf"
    by (simp only: contains_append)
  with p1 p2 eq o1(2) o2(2) show ?thesis
    by (intro conjI exI [of _ sb1] exI [of _ sb2] exI [of _ "out1 @ out2"]) auto
qed

text \<open>A single-sided job: one route file of the first side, nothing else.\<close>

lemma translate_single_sided:
  "translate \<lparr>drills = [], routes = [(''b.top.etch.g'', [''G00 X1.0 Y2.0''])], mills = [],
              dry = False, port_input = []\<rparr> =
   Inr (preamble @ tool_marker ''98'' ''routing'' @ ''PA146,279;'' @ flip_boundary @ postamble)"
  by (simp add: translate_def drill_phase_def near_route_phase_def far_route_phase_def
      mill_phase_def flip_phase_def with_tool_def first_with_def layer_def olayer_def
      startswith_def parse_tool_change_def re_match_tool_def isdigit_def strip_def isspace_def
      line_1_2 initial_state_val)

theorem flip_boundary_unconditional_witness:
  "translate \<lparr>drills = [], routes = [(''b.top.etch.g'', [''G00 X1.0 Y2.0''])], mills = [],
              dry = False, port_input = []\<rparr> =
     Inr (preamble @ tool_marker ''98'' ''routing'' @ ''PA146,279;'' @ flip_boundary @ postamble) \<and>
   contains flip_boundary
     (preamble @ tool_marker ''98'' ''routing'' @ ''PA146,279;'' @ flip_boundary @ postamble)"
  using flip_boundary_unconditional [OF translate_single_sided] translate_single_sided
  by simp

text \<open>
  C5 as the specification words it fails: the single-sided job has one route file and
  no mill file, hence no far-side source, and its HPGL text holds the flip boundary.
\<close>

theorem flip_boundary_counterexample:
  "length (routes \<lparr>drills = [], routes = [(''b.top.etch.g'', [''G00 X1.0 Y2.0''])],
                   mills = [], dry = False, port_input = []\<rparr>) \<le> 1 \<and>
   mills \<lparr>drills = [], routes = [(''b.top.etch.g'', [''G00 X1.0 Y2.0''])],
          mills = [], dry = False, port_input = []\<rparr> = [] \<and>
   translate \<lparr>drills = [], routes = [(''b.top.etch.g'', [''G00 X1.0 Y2.0''])], mills = [],
              dry = False, port_input = []\<rparr> =
     Inr (preamble @ tool_marker ''98'' ''routing'' @ ''PA146,279;'' @ flip_boundary @ postamble)"
  by (simp add: translate_single_sided)


section \<open>The replay\<close>

text \<open>Only device commands are ever written, each followed by a semicolon: a marker
  never reaches the port, whatever the port is.\<close>

lemma replay_command_write:
  assumes "Write w \<in> set (fst (replay_command c ser))"
  shows "c \<noteq> [] \<and> \<not> startswith c ''CO'' \<and> w = c @ '';''"
  using assms
  by (auto simp: replay_command_def send_cmd_def tool_change_def flip_prompt_def
      split: if_splits channel.splits list.splits)

lemma marker_never_written:
  "Write w \<in> set (fst (replay_commands cs ser)) \<Longrightarrow>
   w \<in> (\<lambda>c. c @ '';'') ` set (device_commands cs)"
proof (induction cs arbitrary: ser)
  case Nil
  then show ?case by simp
next
  case (Cons c cs)
  obtain evs r where rc: "replay_command c ser = (evs, r)"
    by (cases "replay_command c ser")
  show ?case
  proof (cases "Write w \<in> set evs")
    case True
    with rc replay_command_write [of w c ser] show ?thesis
      by (simp add: device_commands_def)
  next
    case False
    with Cons.prems rc obtain ser' where "r = Inr ser'"
      and "Write w \<in> set (fst (replay_commands cs ser'))"
      by (cases r) (auto split: prod.splits)
    with Cons.IH [of ser'] show ?thesis
      by (auto simp: device_commands_def)
  qed
qed

text \<open>On the real port, with ASCII commands and ASCII answers, the loop runs to its end
  and writes every device command, in order, each answered by one read.\<close>

lemma is_ascii_append [simp]: "is_ascii (a @ b) = (is_ascii a \<and> is_ascii b)"
  by (simp add: is_ascii_def)

lemma serial_replay_complete:
  assumes "\<forall>c \<in> set cs. is_ascii c" and "\<forall>r \<in> set rs. is_ascii r"
  shows "snd (replay_commands cs (Serial rs)) =
           Inr (Serial (drop (length (device_commands cs)) rs)) \<and>
         writes (fst (replay_commands cs (Serial rs))) =
           map (\<lambda>c. c @ '';'') (device_commands cs)"
  using assms
proof (induction cs arbitrary: rs)
  case Nil
  show ?case by (simp add: writes_def device_commands_def)
next
  case (Cons c cs)
  show ?case
  proof (cases "c \<noteq> [] \<and> \<not> startswith c ''CO''")
    case False
    then have rc: "snd (replay_command c (Serial rs)) = Inr (Serial rs)"
      and w: "writes (fst (replay_command c (Serial rs))) = []"
      by (auto simp: replay_command_def tool_change_def flip_prompt_def writes_def)
    from Cons.IH [of rs] Cons.prems rc w False show ?thesis
      by (cases "replay_command c (Serial rs)")
        (auto simp: device_commands_def writes_def split: prod.splits)
  next
    case True
    have a: "is_ascii (c @ '';'')"
      using Cons.prems(1) by (simp add: is_ascii_def)
    have rc: "replay_command c (Serial rs) = ([Write (c @ '';'')], Inr (Serial (drop 1 rs)))"
      using True a Cons.prems(2)
      by (cases rs) (auto simp: replay_command_def send_cmd_def)
    have "\<forall>r \<in> set (drop 1 rs). is_ascii r"
      using Cons.prems(2) by (auto dest: in_set_dropD)
    from Cons.IH [OF _ this] Cons.prems(1) rc True show ?thesis
      by (auto simp: device_commands_def writes_def split: prod.splits)
  qed
qed

text \<open>
  C8, on the program: a dry run of a job without files. The HPGL text is the opening
  commands, the flip boundary and the closing commands, fifteen device commands in all.
  The dry run writes the first one, \<open>IN\<close>, and ends with the \<open>AttributeError\<close> of
  \<^verbatim>\<open>''.decode('ascii')\<close>: the \<open>read\<close> of \<open>SerialDummy\<close> returns a \<open>str\<close>. The
  other fourteen are never written. The same job on the real port writes all fifteen
  and prompts for the flip and for the end.
\<close>

theorem dry_run_stops_at_first_command:
  "translate \<lparr>drills = [], routes = [], mills = [], dry = True, port_input = []\<rparr> =
     Inr (preamble @ flip_boundary @ postamble) \<and>
   device_commands (commands_of (preamble @ flip_boundary @ postamble)) =
     [''IN'', ''!CT1'', ''VS12000'', ''!OC'', ''!SV140'', ''!SM32'', ''!WR0,8,8'', ''!CC'',
      ''!CM1'', ''!RM0'', ''PU'', ''!OC'', ''!RM0'', ''!CC'', ''PU''] \<and>
   main \<lparr>drills = [], routes = [], mills = [], dry = True, port_input = []\<rparr> =
     ([Write ''IN;''], Some (AttributeError ''str'' ''decode'')) \<and>
   main \<lparr>drills = [], routes = [], mills = [], dry = False, port_input = []\<rparr> =
     ([Write ''IN;'', Write ''!CT1;'', Write ''VS12000;'', Write ''!OC;'', Write ''!SV140;'',
       Write ''!SM32;'', Write ''!WR0,8,8;'', Write ''!CC;'', Write ''!CM1;'', Write ''!RM0;'',
       Write ''PU;'', flip_prompt, Write ''!OC;'', Write ''!RM0;'', Write ''!CC;'',
       Write ''PU;'', final_prompt], None)"
  by (simp add: main_def replay_def translate_def drill_phase_def near_route_phase_def
      far_route_phase_def mill_phase_def flip_phase_def olayer_def layer_def
      commands_of_def device_commands_def preamble_def flip_boundary_def postamble_def
      parse_spindle_def mill_feed_def show_eval replay_command_def send_cmd_def is_ascii_def
      startswith_def)

text \<open>
  The same holds for every job: the HPGL text starts with the opening commands, so its
  first command is \<open>IN\<close>, and a dry run ends right after writing it.
\<close>

lemma split_on_not_Nil: "split_on sep s \<noteq> []"
  by (induction s) (auto split: list.splits)

lemma split_on_Cons_other:
  "c \<noteq> sep \<Longrightarrow> split_on sep (c # s) = (c # hd (split_on sep s)) # tl (split_on sep s)"
  using split_on_not_Nil [of sep s] by (cases "split_on sep s") simp_all

lemma split_on_Cons_sep: "split_on sep (sep # s) = [] # split_on sep s"
  by simp

lemma commands_of_IN: "\<exists>cs. commands_of (''IN;'' @ r) = ''IN'' # cs"
  by (simp add: commands_of_def split_on_Cons_other split_on_Cons_sep del: split_on.simps)

lemma drill_phase_extends:
  assumes "drill_phase j sb = Inr sb'"
  shows "\<exists>out. snd sb' = snd sb @ out"
proof (cases "drills j")
  case Nil
  with assms show ?thesis
    by (simp add: drill_phase_def)
next
  case (Cons f fs)
  with assms have "process_lines True (snd f) sb = Inr sb'"
    by (simp add: drill_phase_def)
  with process_lines_extends [of True "snd f" "fst sb" "snd sb" "fst sb'" "snd sb'"]
  show ?thesis by simp
qed

lemma near_route_phase_extends:
  assumes "near_route_phase j sb = Inr sb'"
  shows "\<exists>out. snd sb' = snd sb @ out"
proof (cases "routes j = []")
  case True
  with assms show ?thesis
    by (simp add: near_route_phase_def)
next
  case False
  with assms obtain f where "with_tool ''M06 T98 (routing )'' (snd f) sb = Inr sb'"
    by (auto simp: near_route_phase_def then_do_def split: sum.splits)
  from with_tool_extends [OF this] show ?thesis .
qed

lemma translate_starts_with_preamble:
  assumes "translate j = Inr buf"
  shows "\<exists>rest. buf = preamble @ rest"
proof -
  from assms obtain sb1 sb2 sb3 sb4 where
    p1: "drill_phase j (initial_state, preamble) = Inr sb1" and
    p2: "near_route_phase j sb1 = Inr sb2" and
    p3: "far_route_phase j (flip_phase sb2) = Inr sb3" and
    p4: "mill_phase j sb3 = Inr sb4" and
    buf: "buf = snd sb4 @ postamble"
    by (auto simp: translate_def then_do_def split: if_splits sum.splits)
  from drill_phase_extends [OF p1] near_route_phase_extends [OF p2]
    far_route_phase_extends [OF p3] mill_phase_extends [OF p4] buf
  show ?thesis
    by (auto simp: flip_phase_def)
qed

lemma dry_run_never_completes:
  assumes "translate j = Inr buf" and "dry j"
  shows "main j = ([Write ''IN;''], Some (AttributeError ''str'' ''decode''))"
proof -
  from translate_starts_with_preamble [OF assms(1)] obtain rest where
    "buf = preamble @ rest" ..
  then have "\<exists>r. buf = ''IN;'' @ r"
    by (simp add: preamble_def)
  then obtain r where "buf = ''IN;'' @ r" ..
  with commands_of_IN [of r] obtain cs where "commands_of buf = ''IN'' # cs"
    by auto
  with assms show ?thesis
    by (simp add: main_def replay_def replay_command_def send_cmd_def is_ascii_def
        startswith_def)
qed

end
